theory Spec2Isabelle
  imports Main
begin

section \<open>Python strings\<close>

text \<open>
  A Python \<open>str\<close> is a sequence of Unicode code points, so a string is a list of code
  points (natural numbers). \<open>ascii\<close> turns an Isabelle literal into such a string; the
  pictographs of the user-interface messages are written by their code points.
\<close>

type_synonym ustr = "nat list"

type_synonym bytes = "char list"

definition ascii :: "string \<Rightarrow> ustr" where
  "ascii s = map of_char s"

text \<open>
  \<open>str.strip()\<close> without arguments removes leading and trailing whitespace, which for a
  \<open>str\<close> is the set of code points for which \<open>str.isspace\<close> holds.
\<close>

definition isspace :: "nat \<Rightarrow> bool" where
  "isspace c \<longleftrightarrow>
     (0x09 \<le> c \<and> c \<le> 0x0D) \<or> (0x1C \<le> c \<and> c \<le> 0x20) \<or> c = 0x85 \<or> c = 0xA0 \<or>
     c = 0x1680 \<or> (0x2000 \<le> c \<and> c \<le> 0x200A) \<or> c = 0x2028 \<or> c = 0x2029 \<or>
     c = 0x202F \<or> c = 0x205F \<or> c = 0x3000"

definition lstrip :: "ustr \<Rightarrow> ustr" where
  "lstrip s = dropWhile isspace s"

definition rstrip :: "ustr \<Rightarrow> ustr" where
  "rstrip s = rev (dropWhile isspace (rev s))"

definition strip :: "ustr \<Rightarrow> ustr" where
  "strip s = rstrip (lstrip s)"

text \<open>
  \<open>str.replace(old, new)\<close>: every non-overlapping occurrence of \<open>old\<close>, found from the
  left, is replaced by \<open>new\<close>; an empty \<open>old\<close> matches before every character and at
  the end.
\<close>

function replace :: "ustr \<Rightarrow> ustr \<Rightarrow> ustr \<Rightarrow> ustr" where
  "replace old new s =
     (if old = [] then new @ concat (map (\<lambda>c. c # new) s)
      else if s = [] then []
      else if take (length old) s = old then new @ replace old new (drop (length old) s)
      else hd s # replace old new (tl s))"
  by pat_completeness auto
termination
  by (relation "measure (\<lambda>(old, new, s). length s)") auto

declare replace.simps [simp del]

text \<open>Decimal digits of a natural number, and zero padding to a width.\<close>

function digits :: "nat \<Rightarrow> ustr" where
  "digits n = (if n < 10 then [0x30 + n] else digits (n div 10) @ [0x30 + n mod 10])"
  by pat_completeness auto
termination
  by (relation "measure id") auto

declare digits.simps [simp del]

definition zfill :: "nat \<Rightarrow> ustr \<Rightarrow> ustr" where
  "zfill w s = replicate (w - length s) 0x30 @ s"

section \<open>Dates\<close>

text \<open>
  \<open>datetime.now()\<close> reads the clock; only the calendar date is used. \<open>%B\<close> is the full
  month name, \<open>%d\<close> and \<open>%m\<close> are zero-padded to two digits and \<open>%Y\<close> is the year with
  century, four digits for the years 1000 to 9999.
\<close>

datatype month = January | February | March | April | May | June | July | August
  | September | October | November | December

record date =
  year :: nat
  month :: month
  day :: nat

fun month_number :: "month \<Rightarrow> nat" where
  "month_number January = 1"
| "month_number February = 2"
| "month_number March = 3"
| "month_number April = 4"
| "month_number May = 5"
| "month_number June = 6"
| "month_number July = 7"
| "month_number August = 8"
| "month_number September = 9"
| "month_number October = 10"
| "month_number November = 11"
| "month_number December = 12"

fun month_name :: "month \<Rightarrow> ustr" where
  "month_name January = ascii ''January''"
| "month_name February = ascii ''February''"
| "month_name March = ascii ''March''"
| "month_name April = ascii ''April''"
| "month_name May = ascii ''May''"
| "month_name June = ascii ''June''"
| "month_name July = ascii ''July''"
| "month_name August = ascii ''August''"
| "month_name September = ascii ''September''"
| "month_name October = ascii ''October''"
| "month_name November = ascii ''November''"
| "month_name December = ascii ''December''"

definition strftime_B_d_Y :: "date \<Rightarrow> ustr" where
  "strftime_B_d_Y d =
     month_name (month d) @ ascii '' '' @ zfill 2 (digits (day d)) @ ascii '', '' @
     zfill 4 (digits (year d))"

definition strftime_Ymd :: "date \<Rightarrow> ustr" where
  "strftime_Ymd d =
     zfill 4 (digits (year d)) @ zfill 2 (digits (month_number (month d))) @
     zfill 2 (digits (day d))"

section \<open>Python values\<close>

text \<open>
  The values \<open>response.json()\<close> returns: \<open>None\<close>, booleans, integers, strings, lists and
  dictionaries with string keys (JSON numbers with a fraction are left out). A dictionary
  is the list of its items; a key occurs once, and lookup takes the first item with the key.
\<close>

datatype pyval =
    PyNone
  | PyBool bool
  | PyInt int
  | PyStr ustr
  | PyList "pyval list"
  | PyDict "(ustr \<times> pyval) list"

datatype http_method = GET | POST

record request =
  rq_method :: http_method
  rq_url :: ustr
  rq_headers :: "(ustr \<times> ustr) list"
  rq_params :: "(ustr \<times> ustr) list"
  rq_json :: "pyval option"

text \<open>
  A response: its status code, its body as text, and the body parsed as JSON (\<open>None\<close>
  when the body is not JSON).
\<close>

record response =
  status_code :: nat
  body_text :: ustr
  json_body :: "pyval option"

text \<open>
  The exceptions the program can meet: \<open>requests.exceptions.HTTPError\<close> (carrying the
  response), the built-in errors of dynamic typing, a body that is not JSON, a transport
  failure of \<open>requests\<close>, an exception of the PDF library, and a failure to read the default
  template file. The last four carry the exception's message.
\<close>

datatype exc =
    HTTPError response
  | KeyError ustr
  | TypeError
  | AttributeError
  | IndexError
  | JSONDecodeError
  | RequestException ustr
  | PdfError ustr
  | OSError ustr

text \<open>Sequencing of steps that may raise: the first exception ends the sequence.\<close>

definition seq :: "exc + 'a \<Rightarrow> ('a \<Rightarrow> exc + 'b) \<Rightarrow> exc + 'b" where
  "seq r f = (case r of Inl e \<Rightarrow> Inl e | Inr x \<Rightarrow> f x)"

text \<open>Truth value of a Python value (\<open>if x:\<close>).\<close>

fun truthy :: "pyval \<Rightarrow> bool" where
  "truthy PyNone = False"
| "truthy (PyBool b) = b"
| "truthy (PyInt i) = (i \<noteq> 0)"
| "truthy (PyStr s) = (s \<noteq> [])"
| "truthy (PyList xs) = (xs \<noteq> [])"
| "truthy (PyDict kvs) = (kvs \<noteq> [])"

text \<open>\<open>x.get(k, default)\<close>: only a dictionary has the method.\<close>

fun dict_get :: "pyval \<Rightarrow> ustr \<Rightarrow> pyval \<Rightarrow> exc + pyval" where
  "dict_get (PyDict kvs) k dflt = Inr (case map_of kvs k of None \<Rightarrow> dflt | Some v \<Rightarrow> v)"
| "dict_get _ k dflt = Inl AttributeError"

text \<open>\<open>x[k]\<close> for a string key \<open>k\<close>.\<close>

fun getitem :: "pyval \<Rightarrow> ustr \<Rightarrow> exc + pyval" where
  "getitem (PyDict kvs) k = (case map_of kvs k of None \<Rightarrow> Inl (KeyError k) | Some v \<Rightarrow> Inr v)"
| "getitem _ k = Inl TypeError"

text \<open>\<open>x[0]\<close>: a dictionary from JSON has no integer key.\<close>

fun getitem0 :: "pyval \<Rightarrow> exc + pyval" where
  "getitem0 (PyList []) = Inl IndexError"
| "getitem0 (PyList (v # vs)) = Inr v"
| "getitem0 (PyStr []) = Inl IndexError"
| "getitem0 (PyStr (c # cs)) = Inr (PyStr [c])"
| "getitem0 (PyDict kvs) = Inl (KeyError (ascii ''0''))"
| "getitem0 _ = Inl TypeError"

text \<open>
  The text an f-string puts for \<open>{x}\<close>. For a list or a dictionary that is Python's
  \<open>repr\<close>, which is taken as the parameter \<open>rp\<close>.
\<close>

fun py_format :: "(pyval \<Rightarrow> ustr) \<Rightarrow> pyval \<Rightarrow> ustr" where
  "py_format rp PyNone = ascii ''None''"
| "py_format rp (PyBool b) = (if b then ascii ''True'' else ascii ''False'')"
| "py_format rp (PyInt i) = (if i < 0 then ascii ''-'' @ digits (nat (- i)) else digits (nat i))"
| "py_format rp (PyStr s) = s"
| "py_format rp v = rp v"

section \<open>Filling the template\<close>

text \<open>The dictionary \<open>field_values\<close>, with its four fixed keys.\<close>

record field_values =
  Text1 :: pyval
  Text2 :: pyval
  Text3 :: ustr
  Text4 :: ustr

text \<open>
  The calls into the PDF library, over its documents \<open>'d\<close>. Each either returns or
  raises with a message. \<open>num_pages\<close> is the length of \<open>writer.pages\<close>, and
  \<open>update_page_form_field_values\<close> takes the index of the page.
\<close>

record 'd pypdf =
  PdfReader :: "bytes \<Rightarrow> ustr + 'd"
  clone_document_from_reader :: "'d \<Rightarrow> ustr + 'd"
  num_pages :: "'d \<Rightarrow> nat"
  update_page_form_field_values :: "'d \<Rightarrow> nat \<Rightarrow> field_values \<Rightarrow> ustr + 'd"
  pdf_write :: "'d \<Rightarrow> ustr + bytes"

definition pdf_call :: "ustr + 'a \<Rightarrow> exc + 'a" where
  "pdf_call r = (case r of Inl m \<Rightarrow> Inl (PdfError m) | Inr x \<Rightarrow> Inr x)"

text \<open>
  \<open>fill_btx_welcome_packet(template_file, company_data, contact_data)\<close>. The library
  \<open>lib\<close>, the \<open>repr\<close> of containers \<open>rp\<close> and the clock reading \<open>today\<close> are the
  function's environment.
\<close>

definition fill_btx_welcome_packet ::
  "'d pypdf \<Rightarrow> (pyval \<Rightarrow> ustr) \<Rightarrow> date \<Rightarrow> bytes \<Rightarrow> pyval \<Rightarrow> pyval \<Rightarrow> exc + (bytes \<times> field_values)"
where
  "fill_btx_welcome_packet lib rp today template_file company_data contact_data =
     seq (dict_get company_data (ascii ''properties'') (PyDict [])) (\<lambda>props.
     seq (dict_get props (ascii ''name'') (PyStr (ascii ''N/A''))) (\<lambda>company_name.
     seq (dict_get props (ascii ''btx_customer__'') (PyStr (ascii ''N/A''))) (\<lambda>customer_number.
     seq (if truthy contact_data then
            seq (dict_get contact_data (ascii ''properties'') (PyDict [])) (\<lambda>contact_props.
            seq (dict_get contact_props (ascii ''firstname'') (PyStr [])) (\<lambda>firstname.
            seq (dict_get contact_props (ascii ''lastname'') (PyStr [])) (\<lambda>lastname.
            let account_team = strip (py_format rp firstname @ ascii '' '' @ py_format rp lastname)
            in Inr (if account_team = [] then ascii ''N/A'' else account_team))))
          else Inr (ascii ''N/A'')) (\<lambda>account_team.
     let current_date = strftime_B_d_Y today;
         field_values = \<lparr>Text1 = company_name, Text2 = customer_number,
                         Text3 = account_team, Text4 = current_date\<rparr>
     in
     seq (pdf_call (PdfReader lib template_file)) (\<lambda>reader.
     seq (pdf_call (clone_document_from_reader lib reader)) (\<lambda>writer.
     seq (if num_pages lib writer = 0 then Inl IndexError else Inr (0::nat)) (\<lambda>page.
     seq (pdf_call (update_page_form_field_values lib writer page field_values)) (\<lambda>writer'.
     seq (pdf_call (pdf_write lib writer')) (\<lambda>output.
     Inr (output, field_values))))))))))"

section \<open>The user interface and the network\<close>

text \<open>
  What a run does to the outside is recorded in a trace: each HTTP exchange (the request
  and either the transport failure or the response) and each call of \<open>st.info\<close>,
  \<open>st.success\<close>, \<open>st.warning\<close>, \<open>st.error\<close>, \<open>st.metric\<close> and
  \<open>st.download_button\<close>. \<open>ErrorExc p e\<close> is \<open>st.error\<close> of the prefix \<open>p\<close>
  followed by \<open>str(e)\<close>. The \<open>st.markdown\<close> decoration and the spinner are not traced.
\<close>

datatype event =
    Http request "ustr + response"
  | Info ustr
  | Success ustr
  | Warning ustr
  | Error ustr
  | ErrorExc ustr exc
  | Metric ustr pyval
  | DownloadButton ustr bytes ustr ustr

text \<open>A step ends by raising or by the \<open>return\<close> statement of \<open>main_app\<close>.\<close>

datatype stop = Raise exc | Return

type_synonym 'a act = "event list \<times> (stop + 'a)"

definition bind :: "'a act \<Rightarrow> ('a \<Rightarrow> 'b act) \<Rightarrow> 'b act" where
  "bind m f =
     (case m of
        (es, Inl s) \<Rightarrow> (es, Inl s)
      | (es, Inr x) \<Rightarrow> (case f x of (es', r) \<Rightarrow> (es @ es', r)))"

definition emit :: "event \<Rightarrow> unit act" where
  "emit ev = ([ev], Inr ())"

definition ret :: "'a \<Rightarrow> 'a act" where
  "ret x = ([], Inr x)"

definition py :: "exc + 'a \<Rightarrow> 'a act" where
  "py r = ([], case r of Inl e \<Rightarrow> Inl (Raise e) | Inr x \<Rightarrow> Inr x)"

text \<open>
  The world of a run: the CRM behind \<open>requests\<close>, the clock (\<open>now n\<close> is its \<open>n\<close>-th
  reading), the default template file (\<open>None\<close> when there is none, otherwise its
  bytes) and Python's \<open>repr\<close> of containers.
\<close>

record world =
  http :: "request \<Rightarrow> ustr + response"
  now :: "nat \<Rightarrow> date"
  default_template :: "bytes option"
  repr :: "pyval \<Rightarrow> ustr"

definition requests_send :: "world \<Rightarrow> request \<Rightarrow> response act" where
  "requests_send w q =
     (case http w q of
        Inl m \<Rightarrow> ([Http q (Inl m)], Inl (Raise (RequestException m)))
      | Inr r \<Rightarrow> ([Http q (Inr r)], Inr r))"

text \<open>\<open>response.raise_for_status()\<close> raises for the statuses 400 to 599.\<close>

definition raise_for_status :: "response \<Rightarrow> exc + unit" where
  "raise_for_status r =
     (if 400 \<le> status_code r \<and> status_code r < 600 then Inl (HTTPError r) else Inr ())"

definition response_json :: "response \<Rightarrow> exc + pyval" where
  "response_json r = (case json_body r of None \<Rightarrow> Inl JSONDecodeError | Some v \<Rightarrow> Inr v)"

section \<open>HubSpotClient\<close>

record client =
  api_key :: ustr
  base_url :: ustr
  headers :: "(ustr \<times> ustr) list"

definition HubSpotClient :: "ustr \<Rightarrow> client" where
  "HubSpotClient key =
     \<lparr>api_key = key,
      base_url = ascii ''https://api.hubapi.com'',
      headers = [(ascii ''Authorization'', ascii ''Bearer '' @ key),
                 (ascii ''Content-Type'', ascii ''application/json'')]\<rparr>"

text \<open>
  The four requests. An id is put into the URL as an f-string formats it.
\<close>

definition company_request :: "world \<Rightarrow> client \<Rightarrow> pyval \<Rightarrow> request" where
  "company_request w self company_id =
     (let url = base_url self @ ascii ''/crm/v3/objects/companies/'' @
                py_format (repr w) company_id;
          params = [(ascii ''properties'', ascii ''name,btx_customer__'')]
      in \<lparr>rq_method = GET, rq_url = url, rq_headers = headers self,
          rq_params = params, rq_json = None\<rparr>)"

definition associations_request :: "world \<Rightarrow> client \<Rightarrow> pyval \<Rightarrow> request" where
  "associations_request w self company_id =
     (let url = base_url self @ ascii ''/crm/v4/objects/companies/'' @
                py_format (repr w) company_id @ ascii ''/associations/contacts''
      in \<lparr>rq_method = GET, rq_url = url, rq_headers = headers self,
          rq_params = [], rq_json = None\<rparr>)"

definition contact_request :: "world \<Rightarrow> client \<Rightarrow> pyval \<Rightarrow> request" where
  "contact_request w self contact_id =
     (let url = base_url self @ ascii ''/crm/v3/objects/contacts/'' @
                py_format (repr w) contact_id;
          params = [(ascii ''properties'', ascii ''firstname,lastname,email'')]
      in \<lparr>rq_method = GET, rq_url = url, rq_headers = headers self,
          rq_params = params, rq_json = None\<rparr>)"

definition search_payload :: "ustr \<Rightarrow> pyval" where
  "search_payload company_name =
     PyDict
      [(ascii ''filterGroups'',
        PyList [PyDict
          [(ascii ''filters'',
            PyList [PyDict
              [(ascii ''propertyName'', PyStr (ascii ''name'')),
               (ascii ''operator'', PyStr (ascii ''CONTAINS_TOKEN'')),
               (ascii ''value'', PyStr company_name)]])]]),
       (ascii ''properties'',
        PyList [PyStr (ascii ''name''), PyStr (ascii ''btx_customer__'')])]"

definition search_request :: "client \<Rightarrow> ustr \<Rightarrow> request" where
  "search_request self company_name =
     (let url = base_url self @ ascii ''/crm/v3/objects/companies/search'';
          payload = search_payload company_name
      in \<lparr>rq_method = POST, rq_url = url, rq_headers = headers self,
          rq_params = [], rq_json = Some payload\<rparr>)"

text \<open>
  The methods of the client: send the request, \<open>raise_for_status\<close>, read the JSON body.
\<close>

definition get_company_by_id :: "world \<Rightarrow> client \<Rightarrow> pyval \<Rightarrow> pyval act" where
  "get_company_by_id w self company_id =
     bind (requests_send w (company_request w self company_id)) (\<lambda>response.
     bind (py (raise_for_status response)) (\<lambda>_.
     py (response_json response)))"

definition get_contact_by_id :: "world \<Rightarrow> client \<Rightarrow> pyval \<Rightarrow> pyval act" where
  "get_contact_by_id w self contact_id =
     bind (requests_send w (contact_request w self contact_id)) (\<lambda>response.
     bind (py (raise_for_status response)) (\<lambda>_.
     py (response_json response)))"

definition get_company_contacts :: "world \<Rightarrow> client \<Rightarrow> pyval \<Rightarrow> pyval act" where
  "get_company_contacts w self company_id =
     bind (requests_send w (associations_request w self company_id)) (\<lambda>response.
     bind (py (raise_for_status response)) (\<lambda>_.
     bind (py (response_json response)) (\<lambda>associations.
     bind (py (dict_get associations (ascii ''results'') PyNone)) (\<lambda>results.
     if truthy results then
       bind (py (seq (getitem associations (ascii ''results'')) (\<lambda>rs.
                 seq (getitem0 rs) (\<lambda>first_result.
                 getitem first_result (ascii ''toObjectId''))))) (\<lambda>contact_id.
       get_contact_by_id w self contact_id)
     else ret PyNone))))"

definition search_company_by_name :: "world \<Rightarrow> client \<Rightarrow> ustr \<Rightarrow> pyval act" where
  "search_company_by_name w self company_name =
     bind (requests_send w (search_request self company_name)) (\<lambda>response.
     bind (py (raise_for_status response)) (\<lambda>_.
     bind (py (response_json response)) (\<lambda>results.
     bind (py (dict_get results (ascii ''results'') PyNone)) (\<lambda>found.
     if truthy found then
       py (seq (getitem results (ascii ''results'')) (\<lambda>rs. getitem0 rs))
     else ret PyNone))))"

section \<open>main_app\<close>

datatype search_method = SearchByName | UseCompanyID

text \<open>
  How a generate attempt ends: \<open>Ready\<close> when the \<open>try\<close> block ran to its end (the
  download is offered), \<open>Failed e\<close> when an \<open>except\<close> clause handled \<open>e\<close>,
  \<open>Returned\<close> when \<open>main_app\<close> left through a \<open>return\<close>, and \<open>Idle\<close> when the
  button was not pressed.
\<close>

datatype outcome = Ready | Failed exc | Returned | Idle

text \<open>Lines 316 to 328: the company is searched by name or fetched by its id.\<close>

definition fetch_company ::
  "world \<Rightarrow> client \<Rightarrow> search_method \<Rightarrow> ustr \<Rightarrow> (pyval \<times> pyval) act"
where
  "fetch_company w client search_method company_input =
     (case search_method of
        SearchByName \<Rightarrow>
          bind (emit (Info ([0x1F50D] @ ascii '' Searching for '' @ [0x27] @ company_input @
                            [0x27] @ ascii ''...''))) (\<lambda>_.
          bind (search_company_by_name w client company_input) (\<lambda>company_data.
          if \<not> truthy company_data then
            bind (emit (Error ([0x274C] @ ascii '' No company found with name: '' @
                               company_input))) (\<lambda>_.
            bind (emit (Info ([0x1F4A1] @
                              ascii '' Try using the HubSpot Company ID instead''))) (\<lambda>_.
            ([], Inl Return)))
          else
            bind (py (getitem company_data (ascii ''id''))) (\<lambda>company_id.
            ret (company_data, company_id))))
      | UseCompanyID \<Rightarrow>
          bind (get_company_by_id w client (PyStr company_input)) (\<lambda>company_data.
          ret (company_data, PyStr company_input)))"

text \<open>Lines 337 to 342: the contact found, or the warning that there is none.\<close>

definition show_contact :: "world \<Rightarrow> pyval \<Rightarrow> unit act" where
  "show_contact w contact_data =
     (if truthy contact_data then
        bind (py (getitem contact_data (ascii ''properties''))) (\<lambda>contact_props.
        bind (py (dict_get contact_props (ascii ''firstname'') (PyStr []))) (\<lambda>firstname.
        bind (py (dict_get contact_props (ascii ''lastname'') (PyStr []))) (\<lambda>lastname.
        let contact_name = strip (py_format (repr w) firstname @ ascii '' '' @
                                  py_format (repr w) lastname)
        in emit (Success ([0x2705] @ ascii '' Found account team: '' @ contact_name)))))
      else
        emit (Warning ([0x26A0, 0xFE0F] @ ascii '' No contact associated with this company'')))"

text \<open>
  Lines 347 to 351: the uploaded template, or the default file read from disk
  (\<open>open\<close> raises when the file is missing).
\<close>

definition template_to_use :: "world \<Rightarrow> bytes option \<Rightarrow> exc + bytes" where
  "template_to_use w uploaded_template =
     (case uploaded_template of
        Some b \<Rightarrow> Inr b
      | None \<Rightarrow>
          (case default_template w of
             None \<Rightarrow> Inl (OSError (ascii ''[Errno 2] No such file or directory: '' @ [0x27] @
                                    ascii ''BTX_Customer_Welcome_PacketCover.pdf'' @ [0x27]))
           | Some b \<Rightarrow> Inr b))"

text \<open>\<open>company_name.replace(' ', '_')\<close>: only a \<open>str\<close> has the method.\<close>

definition replace_spaces :: "pyval \<Rightarrow> exc + ustr" where
  "replace_spaces v =
     (case v of PyStr s \<Rightarrow> Inr (replace (ascii '' '') (ascii ''_'') s) | _ \<Rightarrow> Inl AttributeError)"

text \<open>Lines 313 to 388: the body of the \<open>try\<close> statement.\<close>

definition try_block ::
  "world \<Rightarrow> 'd pypdf \<Rightarrow> ustr \<Rightarrow> bytes option \<Rightarrow> search_method \<Rightarrow> ustr \<Rightarrow> unit act"
where
  "try_block w lib key uploaded_template search_method company_input =
     (let client = HubSpotClient key in
      bind (fetch_company w client search_method company_input) (\<lambda>(company_data, company_id).
      bind (py (seq (getitem company_data (ascii ''properties'')) (\<lambda>p.
                getitem p (ascii ''name'')))) (\<lambda>company_name.
      bind (emit (Success ([0x2705] @ ascii '' Found company: '' @
                           py_format (repr w) company_name))) (\<lambda>_.
      bind (emit (Info ([0x1F50D] @ ascii '' Fetching account team information...''))) (\<lambda>_.
      bind (get_company_contacts w client company_id) (\<lambda>contact_data.
      bind (show_contact w contact_data) (\<lambda>_.
      bind (emit (Info ([0x1F4DD] @ ascii '' Filling PDF form...''))) (\<lambda>_.
      bind (py (template_to_use w uploaded_template)) (\<lambda>template.
      bind (py (fill_btx_welcome_packet lib (repr w) (now w 0) template
                  company_data contact_data)) (\<lambda>(pdf_output, field_values).
      bind (emit (Metric (ascii ''Company'') (Text1 field_values))) (\<lambda>_.
      bind (emit (Metric (ascii ''Customer #'') (Text2 field_values))) (\<lambda>_.
      bind (emit (Metric (ascii ''Account Team'') (PyStr (Text3 field_values)))) (\<lambda>_.
      bind (emit (Metric (ascii ''Date'') (PyStr (Text4 field_values)))) (\<lambda>_.
      bind (py (replace_spaces company_name)) (\<lambda>underscored.
      let filename = ascii ''BTX_Welcome_Packet_'' @ underscored @ ascii ''_'' @
                     strftime_Ymd (now w 1) @ ascii ''.pdf''
      in emit (DownloadButton ([0x2B07, 0xFE0F] @ ascii '' Download Welcome Packet'')
                 pdf_output filename (ascii ''application/pdf'')))))))))))))))))"

text \<open>Lines 390 to 405: the two \<open>except\<close> clauses.\<close>

definition except_events :: "ustr \<Rightarrow> exc \<Rightarrow> event list" where
  "except_events company_input e =
     (case e of
        HTTPError r \<Rightarrow>
          if status_code r = 401 then
            [Error ([0x274C] @ ascii '' Authentication Error''),
             Error (ascii ''Your HubSpot API key is invalid or has expired.''),
             Info (ascii ''Please check your API key in the sidebar.'')]
          else if status_code r = 404 then
            [Error ([0x274C] @ ascii '' Not Found''),
             Error (ascii ''Company or contact not found for: '' @ company_input)]
          else
            [ErrorExc ([0x274C] @ ascii '' HubSpot API Error: '') e,
             Error (ascii ''Details: '' @ body_text r)]
      | _ \<Rightarrow>
          [Error ([0x274C] @ ascii '' Unexpected Error''),
           ErrorExc [] e,
           Info (ascii ''Please check your inputs and try again.'')])"

text \<open>Lines 306 to 405: what pressing the button does.\<close>

definition generate ::
  "world \<Rightarrow> 'd pypdf \<Rightarrow> ustr \<Rightarrow> bytes option \<Rightarrow> search_method \<Rightarrow> ustr \<Rightarrow> event list \<times> outcome"
where
  "generate w lib key uploaded_template search_method company_input =
     (if company_input = [] then
        ([Error ([0x274C] @ ascii '' Please enter a company name or ID'')], Returned)
      else
        (case try_block w lib key uploaded_template search_method company_input of
           (es, Inr _) \<Rightarrow> (es, Ready)
         | (es, Inl Return) \<Rightarrow> (es, Returned)
         | (es, Inl (Raise e)) \<Rightarrow> (es @ except_events company_input e, Failed e)))"

text \<open>
  \<open>main_app\<close> from line 249 on: without an API key or without any template nothing is
  fetched.
\<close>

definition main_app ::
  "world \<Rightarrow> 'd pypdf \<Rightarrow> ustr \<Rightarrow> bytes option \<Rightarrow> search_method \<Rightarrow> ustr \<Rightarrow> bool
     \<Rightarrow> event list \<times> outcome"
where
  "main_app w lib key uploaded_template search_method company_input generate_button =
     (if key = [] then ([], Returned)
      else if uploaded_template = None \<and> default_template w = None then
        ([Error ([0x274C] @
                 ascii '' No PDF template found. Please upload a template in the sidebar.'')],
         Returned)
      else if generate_button then
        generate w lib key uploaded_template search_method company_input
      else ([], Idle))"

section \<open>Reading the records and the trace\<close>

text \<open>
  A property of the company record: the value under the key in its \<open>properties\<close>
  object, \<open>None\<close> when the key or the object is absent.
\<close>

definition company_property :: "pyval \<Rightarrow> ustr \<Rightarrow> pyval option" where
  "company_property company k =
     (case company of
        PyDict kvs \<Rightarrow>
          (case map_of kvs (ascii ''properties'') of
             Some (PyDict ps) \<Rightarrow> map_of ps k
           | _ \<Rightarrow> None)
      | _ \<Rightarrow> None)"

text \<open>
  A name of the contact record as text: the string under the key, the empty string when
  the contact, its \<open>properties\<close> object or the key is absent, and \<open>None\<close> when what is
  stored is not a string.
\<close>

definition contact_name :: "pyval \<Rightarrow> ustr \<Rightarrow> ustr option" where
  "contact_name contact k =
     (case contact of
        PyNone \<Rightarrow> Some []
      | PyDict kvs \<Rightarrow>
          (case map_of kvs (ascii ''properties'') of
             None \<Rightarrow> Some []
           | Some (PyDict ps) \<Rightarrow>
               (case map_of ps k of
                  None \<Rightarrow> Some []
                | Some (PyStr s) \<Rightarrow> Some s
                | Some _ \<Rightarrow> None)
           | Some _ \<Rightarrow> None)
      | _ \<Rightarrow> None)"

text \<open>The requests of a trace, in the order they were sent.\<close>

fun sent :: "event list \<Rightarrow> request list" where
  "sent [] = []"
| "sent (Http q r # es) = q # sent es"
| "sent (e # es) = sent es"

text \<open>
  A run aborts on 401 when every exchange of its trace that was answered with the status
  401 made it raise the \<open>HTTPError\<close> of that response.
\<close>

definition aborts_on_401 :: "'a act \<Rightarrow> bool" where
  "aborts_on_401 m \<longleftrightarrow>
     (\<forall>q r. Http q (Inr r) \<in> set (fst m) \<and> status_code r = 401 \<longrightarrow>
            snd m = Inl (Raise (HTTPError r)))"

section \<open>The PDF library as the spec describes it\<close>

text \<open>
  Modelled from the spec: the document model of the PDF library (pypdf), which is not part
  of the repository. A template is a document of pages; a page has named form fields
  with their values and its other content; what a document holds outside its pages is
  its trailer.
\<close>

record page =
  form :: "(ustr \<times> pyval) list"
  content :: bytes

record document =
  pages :: "page list"
  trailer :: bytes

text \<open>The four field identifiers of the template, and \<open>field_values\<close> as its items.\<close>

definition target_names :: "ustr list" where
  "target_names = [ascii ''Text1'', ascii ''Text2'', ascii ''Text3'', ascii ''Text4'']"

definition field_items :: "field_values \<Rightarrow> (ustr \<times> pyval) list" where
  "field_items fv =
     [(ascii ''Text1'', Text1 fv), (ascii ''Text2'', Text2 fv),
      (ascii ''Text3'', PyStr (Text3 fv)), (ascii ''Text4'', PyStr (Text4 fv))]"

text \<open>
  Modelled from the spec: \<open>update_page_form_field_values\<close>, absent from the repository,
  "writes these four values into the template's four fixed form fields, preserving every
  other page/field untouched": a field of the page whose name is among the items gets the
  value of the item, every other field keeps its value, and no field is added.
\<close>

fun write_form ::
  "(ustr \<times> pyval) list \<Rightarrow> (ustr \<times> pyval) list \<Rightarrow> (ustr \<times> pyval) list"
where
  "write_form items [] = []"
| "write_form items ((k, v) # entries) =
     (k, case map_of items k of None \<Rightarrow> v | Some v' \<Rightarrow> v') # write_form items entries"

text \<open>
  Modelled from the spec: the same update on a document, absent from the repository
  with the library: only the form of the page with the given index changes, and a
  document without that page is left as it is.
\<close>

definition set_fields :: "document \<Rightarrow> nat \<Rightarrow> field_values \<Rightarrow> document" where
  "set_fields d i fv =
     (if i < length (pages d)
      then d\<lparr>pages := (pages d)[i := (pages d ! i)\<lparr>form :=
                write_form (field_items fv) (form (pages d ! i))\<rparr>]\<rparr>
      else d)"

text \<open>
  Modelled from the spec: the contract of the PDF library, absent from the repository.
  Cloning gives the document that was read, \<open>writer.pages\<close> are its pages, updating the
  form fields of a page is \<open>set_fields\<close>, and reading the bytes that \<open>write\<close> produced
  gives back the document that was written.
\<close>

definition pdf_contract :: "document pypdf \<Rightarrow> bool" where
  "pdf_contract lib \<longleftrightarrow>
     (\<forall>d d'. clone_document_from_reader lib d = Inr d' \<longrightarrow> d' = d) \<and>
     (\<forall>d. num_pages lib d = length (pages d)) \<and>
     (\<forall>d i fv d'. update_page_form_field_values lib d i fv = Inr d' \<longrightarrow>
                  d' = set_fields d i fv) \<and>
     (\<forall>d b. pdf_write lib d = Inr b \<longrightarrow> PdfReader lib b = Inr d)"

section \<open>Example data\<close>

definition ok_response :: "pyval \<Rightarrow> response" where
  "ok_response v = \<lparr>status_code = 200, body_text = [], json_body = Some v\<rparr>"

definition error_response :: "nat \<Rightarrow> response" where
  "error_response n = \<lparr>status_code = n, body_text = [], json_body = None\<rparr>"

text \<open>
  A CRM that answers the association listing of company 42, the fetch of contact 7, and
  every other request (the company fetch and the search) with the given responses.
\<close>

definition example_http ::
  "response \<Rightarrow> response \<Rightarrow> response \<Rightarrow> request \<Rightarrow> ustr + response"
where
  "example_http company associations contact q =
     (if rq_url q =
         ascii ''https://api.hubapi.com/crm/v4/objects/companies/42/associations/contacts''
      then Inr associations
      else if rq_url q = ascii ''https://api.hubapi.com/crm/v3/objects/contacts/7''
      then Inr contact
      else Inr company)"

definition march_4 :: date where
  "march_4 = \<lparr>year = 2025, month = March, day = 4\<rparr>"

definition example_world :: "response \<Rightarrow> response \<Rightarrow> response \<Rightarrow> world" where
  "example_world company associations contact =
     \<lparr>http = example_http company associations contact,
      now = (\<lambda>n. march_4),
      default_template = Some ''%PDF-1.7'',
      repr = (\<lambda>v. [])\<rparr>"

definition acme :: pyval where
  "acme = PyDict [(ascii ''id'', PyStr (ascii ''42'')),
                  (ascii ''properties'',
                   PyDict [(ascii ''name'', PyStr (ascii ''Acme Corp'')),
                           (ascii ''btx_customer__'', PyStr (ascii ''CUST-9''))])]"

definition acme_unnumbered :: pyval where
  "acme_unnumbered =
     PyDict [(ascii ''id'', PyStr (ascii ''42'')),
             (ascii ''properties'', PyDict [(ascii ''name'', PyStr (ascii ''Acme Corp''))])]"

definition blank_company :: pyval where
  "blank_company =
     PyDict [(ascii ''id'', PyStr (ascii ''43'')),
             (ascii ''properties'',
              PyDict [(ascii ''name'', PyStr []), (ascii ''btx_customer__'', PyNone)])]"

definition jane :: pyval where
  "jane = PyDict [(ascii ''id'', PyStr (ascii ''7'')),
                  (ascii ''properties'',
                   PyDict [(ascii ''firstname'', PyStr (ascii ''Jane'')),
                           (ascii ''lastname'', PyStr (ascii ''Doe''))])]"

definition blank_contact :: pyval where
  "blank_contact =
     PyDict [(ascii ''id'', PyStr (ascii ''8'')),
             (ascii ''properties'',
              PyDict [(ascii ''firstname'', PyStr []),
                      (ascii ''lastname'', PyStr (ascii '' ''))])]"

definition one_association :: pyval where
  "one_association =
     PyDict [(ascii ''results'', PyList [PyDict [(ascii ''toObjectId'', PyInt 7)]])]"

definition no_association :: pyval where
  "no_association = PyDict [(ascii ''results'', PyList [])]"

text \<open>
  A PDF library that reads what starts with \<open>%PDF\<close>, finds one page, and writes the
  document back.
\<close>

definition example_pypdf :: "bytes pypdf" where
  "example_pypdf =
     \<lparr>PdfReader = (\<lambda>b. if take 4 b = ''%PDF'' then Inr b
                        else Inl (ascii ''EOF marker not found'')),
      clone_document_from_reader = (\<lambda>d. Inr d),
      num_pages = (\<lambda>d. 1),
      update_page_form_field_values = (\<lambda>d page fv. Inr d),
      pdf_write = (\<lambda>d. Inr d)\<rparr>"

definition no_match :: pyval where
  "no_match = PyDict [(ascii ''total'', PyInt 0), (ascii ''results'', PyList [])]"

definition crm_with_contact :: world where
  "crm_with_contact =
     example_world (ok_response acme) (ok_response one_association) (ok_response jane)"

definition crm_without_contact :: world where
  "crm_without_contact =
     example_world (ok_response acme) (ok_response no_association) (ok_response jane)"

definition crm_unauthorized :: world where
  "crm_unauthorized =
     example_world (ok_response acme) (error_response 401) (ok_response jane)"

definition crm_no_match :: world where
  "crm_no_match =
     example_world (ok_response no_match) (ok_response no_association) (ok_response jane)"

definition crm_not_found :: world where
  "crm_not_found =
     example_world (error_response 404) (ok_response no_association) (ok_response jane)"

definition example_client :: client where
  "example_client = HubSpotClient (ascii ''key'')"

definition unnamed_contact :: pyval where
  "unnamed_contact =
     PyDict [(ascii ''id'', PyStr (ascii ''7'')),
             (ascii ''properties'',
              PyDict [(ascii ''firstname'', PyNone), (ascii ''lastname'', PyNone)])]"

definition doe_contact :: pyval where
  "doe_contact =
     PyDict [(ascii ''id'', PyStr (ascii ''7'')),
             (ascii ''properties'',
              PyDict [(ascii ''firstname'', PyNone),
                      (ascii ''lastname'', PyStr (ascii ''Doe''))])]"

text \<open>
  A template of two pages, and a library over documents that reads the template and the
  filled packet and can write the filled packet only.
\<close>

definition cover_page :: page where
  "cover_page =
     \<lparr>form = [(ascii ''Text1'', PyStr []), (ascii ''Text2'', PyStr []),
              (ascii ''Text3'', PyStr []), (ascii ''Text4'', PyStr []),
              (ascii ''Notes'', PyStr (ascii ''keep''))],
      content = ''BTX Global Logistics''\<rparr>"

definition terms_page :: page where
  "terms_page = \<lparr>form = [(ascii ''Signature'', PyStr [])], content = ''Terms''\<rparr>"

definition template_document :: document where
  "template_document = \<lparr>pages = [cover_page, terms_page], trailer = ''%%EOF''\<rparr>"

definition jane_at_acme :: field_values where
  "jane_at_acme =
     \<lparr>Text1 = PyStr (ascii ''Acme Corp''), Text2 = PyStr (ascii ''CUST-9''),
      Text3 = ascii ''Jane Doe'', Text4 = ascii ''March 04, 2025''\<rparr>"

definition filled_document :: document where
  "filled_document = set_fields template_document 0 jane_at_acme"

definition model_pypdf :: "document pypdf" where
  "model_pypdf =
     \<lparr>PdfReader = (\<lambda>b. if b = ''%PDF-template'' then Inr template_document
                        else if b = ''%PDF-filled'' then Inr filled_document
                        else Inl (ascii ''EOF marker not found'')),
      clone_document_from_reader = (\<lambda>d. Inr d),
      num_pages = (\<lambda>d. length (pages d)),
      update_page_form_field_values = (\<lambda>d i fv. Inr (set_fields d i fv)),
      pdf_write = (\<lambda>d. if d = filled_document then Inr ''%PDF-filled''
                        else Inl (ascii ''No space left on device''))\<rparr>"

section \<open>Evaluation\<close>

lemmas string_defs =
  ascii_def strip_def lstrip_def rstrip_def isspace_def zfill_def strftime_Ymd_def
  strftime_B_d_Y_def

lemmas example_defs =
  ok_response_def error_response_def example_http_def example_world_def march_4_def
  acme_def acme_unnumbered_def blank_company_def jane_def blank_contact_def
  one_association_def no_association_def example_pypdf_def no_match_def
  crm_with_contact_def crm_without_contact_def crm_unauthorized_def crm_no_match_def
  crm_not_found_def example_client_def unnamed_contact_def doe_contact_def

lemmas fill_defs =
  fill_btx_welcome_packet_def seq_def pdf_call_def contact_name_def company_property_def
  Let_def

lemmas act_defs = bind_def emit_def ret_def py_def

lemmas client_defs =
  HubSpotClient_def company_request_def associations_request_def contact_request_def
  search_request_def search_payload_def requests_send_def raise_for_status_def
  response_json_def get_company_by_id_def get_contact_by_id_def get_company_contacts_def
  search_company_by_name_def

lemmas run_defs =
  generate_def try_block_def fetch_company_def show_contact_def template_to_use_def
  replace_spaces_def except_events_def

lemma strip_space: "strip (ascii '' '') = []"
  by (simp add: string_defs)

lemma replace_char: "replace [a] [b] s = map (\<lambda>c. if c = a then b else c) s"
  by (induction s) (simp_all add: replace.simps[of "[a]" "[b]"])

lemma ascii_space: "ascii '' '' = [0x20]"
  by (simp add: ascii_def)

lemma ascii_underscore: "ascii ''_'' = [0x5F]"
  by (simp add: ascii_def)

section \<open>Sequencing\<close>

lemma seq_Inr: "seq r f = Inr y \<longleftrightarrow> (\<exists>x. r = Inr x \<and> f x = Inr y)"
  by (cases r) (simp_all add: seq_def)

lemma seq_Inl: "seq r f = Inl e \<longleftrightarrow> r = Inl e \<or> (\<exists>x. r = Inr x \<and> f x = Inl e)"
  by (cases r) (simp_all add: seq_def)

lemma bind_eq_Inr:
  "bind m f = (es, Inr y) \<longleftrightarrow>
     (\<exists>es1 x es2. m = (es1, Inr x) \<and> f x = (es2, Inr y) \<and> es = es1 @ es2)"
  by (cases m) (auto simp: bind_def split: sum.splits prod.splits)

lemma emit_eq: "emit ev = (es, Inr y) \<longleftrightarrow> es = [ev]"
  by (auto simp: emit_def)

lemma py_eq_Inr: "py r = (es, Inr y) \<longleftrightarrow> es = [] \<and> r = Inr y"
  by (cases r) (auto simp: py_def)

lemma generate_Ready:
  "generate w lib key up m i = (es, Ready) \<longleftrightarrow>
     i \<noteq> [] \<and> (\<exists>u. try_block w lib key up m i = (es, Inr u))"
  by (auto simp: generate_def split: prod.splits sum.splits stop.splits)

section \<open>The field values\<close>

lemma fill_fields:
  assumes "fill_btx_welcome_packet lib rp today t company contact = Inr (out, fv)"
  shows "\<exists>props.
           dict_get company (ascii ''properties'') (PyDict []) = Inr props \<and>
           dict_get props (ascii ''name'') (PyStr (ascii ''N/A'')) = Inr (Text1 fv) \<and>
           dict_get props (ascii ''btx_customer__'') (PyStr (ascii ''N/A'')) = Inr (Text2 fv)"
  using assms unfolding fill_btx_welcome_packet_def Let_def seq_Inr
  by auto

lemma fill_account_team:
  assumes "fill_btx_welcome_packet lib rp today t company contact = Inr (out, fv)"
  shows "(if truthy contact then
            seq (dict_get contact (ascii ''properties'') (PyDict [])) (\<lambda>contact_props.
            seq (dict_get contact_props (ascii ''firstname'') (PyStr [])) (\<lambda>firstname.
            seq (dict_get contact_props (ascii ''lastname'') (PyStr [])) (\<lambda>lastname.
            let account_team = strip (py_format rp firstname @ ascii '' '' @
                                      py_format rp lastname)
            in Inr (if account_team = [] then ascii ''N/A'' else account_team))))
          else Inr (ascii ''N/A'')) = Inr (Text3 fv)"
  using assms unfolding fill_btx_welcome_packet_def Let_def seq_Inr
  by auto

lemma account_team_value:
  assumes "fill_btx_welcome_packet lib rp today t company contact = Inr (out, fv)"
    and "contact_name contact (ascii ''firstname'') = Some firstName"
    and "contact_name contact (ascii ''lastname'') = Some lastName"
  shows "Text3 fv =
           (if contact = PyNone \<or> strip (firstName @ ascii '' '' @ lastName) = []
            then ascii ''N/A''
            else strip (firstName @ ascii '' '' @ lastName))"
proof (cases "truthy contact")
  case False
  with fill_account_team[OF assms(1)] have n: "Text3 fv = ascii ''N/A''"
    by simp
  from False assms(2,3) have "contact = PyNone \<or> (firstName = [] \<and> lastName = [])"
    by (cases contact) (auto simp: contact_name_def split: option.splits pyval.splits)
  then show ?thesis
    using n strip_space by auto
next
  case True
  then show ?thesis
    using fill_account_team[OF assms(1)] assms(2,3)
    by (cases contact)
       (auto simp: contact_name_def seq_Inr Let_def
             split: option.splits pyval.splits if_splits)
qed

lemma company_field_values:
  assumes "fill_btx_welcome_packet lib rp today t company contact = Inr (out, fv)"
  shows "Text1 fv = (case company_property company (ascii ''name'') of
                       None \<Rightarrow> PyStr (ascii ''N/A'') | Some v \<Rightarrow> v)"
    and "Text2 fv = (case company_property company (ascii ''btx_customer__'') of
                       None \<Rightarrow> PyStr (ascii ''N/A'') | Some v \<Rightarrow> v)"
  using fill_fields[OF assms]
  by (cases company; auto simp: company_property_def split: option.splits pyval.splits)+

text \<open>
  Claim C1: for every fill, when the contact record is absent, or the names of the
  contact joined by one space are empty after trimming, the field \<open>Text3\<close> is \<open>N/A\<close>;
  otherwise it is the joined names, trimmed. On names that are strings or absent the
  code does that (\<open>account_team_value\<close>). The code defaults a missing name to the empty
  string, but not a name that the CRM stores as \<open>null\<close>: the f-string renders it as
  \<open>None\<close>, so a contact without names gets \<open>None None\<close> instead of \<open>N/A\<close>, and one
  without a first name gets \<open>None Doe\<close> instead of \<open>Doe\<close>.
\<close>

theorem null_names_are_not_defaulted:
  "fill_btx_welcome_packet example_pypdf (\<lambda>v. []) march_4 ''%PDF-1.7'' acme
     unnamed_contact =
     Inr (''%PDF-1.7'',
          \<lparr>Text1 = PyStr (ascii ''Acme Corp''), Text2 = PyStr (ascii ''CUST-9''),
           Text3 = ascii ''None None'', Text4 = ascii ''March 04, 2025''\<rparr>) \<and>
   fill_btx_welcome_packet example_pypdf (\<lambda>v. []) march_4 ''%PDF-1.7'' acme
     doe_contact =
     Inr (''%PDF-1.7'',
          \<lparr>Text1 = PyStr (ascii ''Acme Corp''), Text2 = PyStr (ascii ''CUST-9''),
           Text3 = ascii ''None Doe'', Text4 = ascii ''March 04, 2025''\<rparr>)"
  by (simp add: fill_defs string_defs example_defs digits.simps)



text \<open>
  Claim C10: the \<open>N/A\<close> defaults of \<open>Text1\<close> and \<open>Text2\<close> apply only when the key is
  absent from the properties of the company record; a value stored under the key, also an
  empty string or \<open>null\<close>, is the field value as it is. The field \<open>Text3\<close> is \<open>N/A\<close>
  whenever the joined names are empty after trimming.
\<close>

theorem company_defaults_only_when_absent:
  assumes "fill_btx_welcome_packet lib rp today t company contact = Inr (out, fv)"
  shows "(company_property company (ascii ''name'') = None \<longrightarrow>
            Text1 fv = PyStr (ascii ''N/A'')) \<and>
         (\<forall>v. company_property company (ascii ''name'') = Some v \<longrightarrow> Text1 fv = v) \<and>
         (company_property company (ascii ''btx_customer__'') = None \<longrightarrow>
            Text2 fv = PyStr (ascii ''N/A'')) \<and>
         (\<forall>v. company_property company (ascii ''btx_customer__'') = Some v \<longrightarrow>
            Text2 fv = v) \<and>
         (\<forall>firstName lastName.
            contact_name contact (ascii ''firstname'') = Some firstName \<and>
            contact_name contact (ascii ''lastname'') = Some lastName \<and>
            strip (firstName @ ascii '' '' @ lastName) = [] \<longrightarrow>
            Text3 fv = ascii ''N/A'')"
  using company_field_values[OF assms] account_team_value[OF assms]
  by auto

theorem company_defaults_only_when_absent_witness:
  "fill_btx_welcome_packet example_pypdf (\<lambda>v. []) march_4 ''%PDF-1.7''
     blank_company blank_contact =
     Inr (''%PDF-1.7'',
          \<lparr>Text1 = PyStr [], Text2 = PyNone,
           Text3 = ascii ''N/A'', Text4 = ascii ''March 04, 2025''\<rparr>) \<and>
   company_property blank_company (ascii ''name'') = Some (PyStr []) \<and>
   company_property blank_company (ascii ''btx_customer__'') = Some PyNone \<and>
   contact_name blank_contact (ascii ''firstname'') = Some [] \<and>
   contact_name blank_contact (ascii ''lastname'') = Some (ascii '' '') \<and>
   strip ([] @ ascii '' '' @ ascii '' '') = [] \<and>
   Text1 \<lparr>Text1 = PyStr [], Text2 = PyNone,
          Text3 = ascii ''N/A'', Text4 = ascii ''March 04, 2025''\<rparr> = PyStr [] \<and>
   Text2 \<lparr>Text1 = PyStr [], Text2 = PyNone,
          Text3 = ascii ''N/A'', Text4 = ascii ''March 04, 2025''\<rparr> = PyNone \<and>
   Text3 \<lparr>Text1 = PyStr [], Text2 = PyNone,
          Text3 = ascii ''N/A'', Text4 = ascii ''March 04, 2025''\<rparr> = ascii ''N/A''"
proof -
  have h1: "fill_btx_welcome_packet example_pypdf (\<lambda>v. []) march_4 ''%PDF-1.7''
     blank_company blank_contact =
     Inr (''%PDF-1.7'',
          \<lparr>Text1 = PyStr [], Text2 = PyNone,
           Text3 = ascii ''N/A'', Text4 = ascii ''March 04, 2025''\<rparr>)"
    by (simp add: fill_defs string_defs example_defs digits.simps)
  have h2: "company_property blank_company (ascii ''name'') = Some (PyStr [])"
    by (simp add: fill_defs example_defs ascii_def)
  have h3: "company_property blank_company (ascii ''btx_customer__'') = Some PyNone"
    by (simp add: fill_defs example_defs ascii_def)
  have h4: "contact_name blank_contact (ascii ''firstname'') = Some []"
    by (simp add: fill_defs example_defs ascii_def)
  have h5: "contact_name blank_contact (ascii ''lastname'') = Some (ascii '' '')"
    by (simp add: fill_defs example_defs ascii_def)
  have h6: "strip ([] @ ascii '' '' @ ascii '' '') = []"
    by (simp add: string_defs)
  from company_defaults_only_when_absent[OF h1] h1 h2 h3 h4 h5 h6 show ?thesis
    by blast
qed

section \<open>The exceptions of a fill\<close>

lemma dict_get_Inl: "dict_get v k d = Inl e \<Longrightarrow> e = AttributeError"
  by (cases v) simp_all

lemma pdf_call_Inl: "pdf_call r = Inl e \<Longrightarrow> \<exists>m. e = PdfError m"
  by (cases r) (auto simp: pdf_call_def)

lemma fill_exc:
  assumes "fill_btx_welcome_packet lib rp today t company contact = Inl e"
  shows "e = AttributeError \<or> e = IndexError \<or> (\<exists>m. e = PdfError m)"
  using assms unfolding fill_btx_welcome_packet_def Let_def
  by (auto simp: seq_Inl dest!: dict_get_Inl pdf_call_Inl split: if_splits)

lemma fill_defect:
  assumes "(\<exists>m. PdfReader lib t = Inl m) \<or>
           (\<exists>d d'. PdfReader lib t = Inr d \<and> clone_document_from_reader lib d = Inr d' \<and>
                    num_pages lib d' = 0)"
  shows "\<exists>e. fill_btx_welcome_packet lib rp today t company contact = Inl e"
proof (cases "fill_btx_welcome_packet lib rp today t company contact")
  case (Inl e)
  then show ?thesis by blast
next
  case (Inr p)
  then show ?thesis
    using assms unfolding fill_btx_welcome_packet_def Let_def seq_Inr
    by (auto simp: pdf_call_def split: if_splits sum.splits)
qed

section \<open>A response with status 401 ends the run\<close>

lemma aborts_bind:
  assumes "aborts_on_401 m" and "\<And>x. aborts_on_401 (f x)"
  shows "aborts_on_401 (bind m f)"
proof (cases m)
  case (Pair es res)
  show ?thesis
  proof (cases res)
    case (Inl s)
    with Pair assms(1) show ?thesis
      by (simp add: bind_def aborts_on_401_def)
  next
    case (Inr x)
    with Pair assms(1)
    have quiet: "\<And>q r. Http q (Inr r) \<in> set es \<Longrightarrow> status_code r \<noteq> 401"
      by (auto simp: aborts_on_401_def)
    obtain es' r' where fx: "f x = (es', r')"
      by (cases "f x")
    with assms(2)[of x] have "aborts_on_401 (es', r')"
      by simp
    with quiet show ?thesis
      using Pair Inr fx by (auto simp: aborts_on_401_def bind_def)
  qed
qed

lemma aborts_emit: "(\<And>q r. ev \<noteq> Http q r) \<Longrightarrow> aborts_on_401 (emit ev)"
  by (auto simp: aborts_on_401_def emit_def)

lemma aborts_py: "aborts_on_401 (py r)"
  by (simp add: aborts_on_401_def py_def)

lemma aborts_ret: "aborts_on_401 (ret x)"
  by (simp add: aborts_on_401_def ret_def)

lemma aborts_Return: "aborts_on_401 ([], Inl Return)"
  by (simp add: aborts_on_401_def)

lemma aborts_send:
  assumes "\<And>x. aborts_on_401 (k x)"
  shows "aborts_on_401 (bind (requests_send w q) (\<lambda>response.
            bind (py (raise_for_status response)) (\<lambda>_. k response)))"
proof (cases "http w q")
  case (Inl m)
  then show ?thesis
    by (simp add: requests_send_def bind_def aborts_on_401_def)
next
  case (Inr r)
  obtain es' r' where kr: "k r = (es', r')"
    by (cases "k r")
  with assms[of r] have "aborts_on_401 (es', r')"
    by simp
  then show ?thesis
    using Inr kr
    by (auto simp: requests_send_def bind_def aborts_on_401_def py_def raise_for_status_def)
qed

lemma aborts_get_company_by_id: "aborts_on_401 (get_company_by_id w c i)"
  unfolding get_company_by_id_def by (rule aborts_send) (rule aborts_py)

lemma aborts_get_contact_by_id: "aborts_on_401 (get_contact_by_id w c i)"
  unfolding get_contact_by_id_def by (rule aborts_send) (rule aborts_py)

lemma aborts_get_company_contacts: "aborts_on_401 (get_company_contacts w c i)"
  unfolding get_company_contacts_def
  by (rule aborts_send)
     (intro aborts_bind aborts_py,
      simp add: aborts_bind aborts_py aborts_ret aborts_get_contact_by_id)

lemma aborts_search_company_by_name: "aborts_on_401 (search_company_by_name w c n)"
  unfolding search_company_by_name_def
  by (rule aborts_send) (intro aborts_bind aborts_py, simp add: aborts_py aborts_ret)

lemma aborts_fetch_company: "aborts_on_401 (fetch_company w c m i)"
  unfolding fetch_company_def
  by (cases m)
     (simp_all add: aborts_bind aborts_emit aborts_py aborts_ret aborts_Return
        aborts_search_company_by_name aborts_get_company_by_id)

lemma aborts_show_contact: "aborts_on_401 (show_contact w c)"
  unfolding show_contact_def Let_def
  by (simp add: aborts_bind aborts_emit aborts_py)

lemma aborts_try_block: "aborts_on_401 (try_block w lib key up m i)"
  unfolding try_block_def Let_def
  by (intro aborts_bind aborts_fetch_company)
     (simp_all add: split_beta aborts_bind aborts_emit aborts_py aborts_ret
        aborts_get_company_contacts aborts_show_contact)

lemma except_events_no_http: "Http q r \<notin> set (except_events i e)"
  by (auto simp: except_events_def split: exc.splits)

text \<open>
  Claim C4: whichever CRM call of a generate attempt is answered with the status 401
  (company fetch, name search, association listing or contact fetch), the attempt ends as
  failed with the \<open>HTTPError\<close> of that response, and its last messages say that the API
  key is invalid or has expired.
\<close>

theorem unauthorized_aborts_with_key_message:
  assumes "Http q (Inr r) \<in> set (fst (generate w lib key up m i))"
    and "status_code r = 401"
  shows "\<exists>es. generate w lib key up m i =
           (es @ [Error ([0x274C] @ ascii '' Authentication Error''),
                  Error (ascii ''Your HubSpot API key is invalid or has expired.''),
                  Info (ascii ''Please check your API key in the sidebar.'')],
            Failed (HTTPError r))"
proof -
  obtain es res where tb: "try_block w lib key up m i = (es, res)"
    by (cases "try_block w lib key up m i")
  from assms(1) have ne: "i \<noteq> []"
    by (auto simp: generate_def split: if_splits)
  from assms(1) ne tb have "Http q (Inr r) \<in> set es"
    by (auto simp: generate_def except_events_no_http split: sum.splits stop.splits)
  with aborts_try_block[of w lib key up m i] tb assms(2)
  have "res = Inl (Raise (HTTPError r))"
    by (auto simp: aborts_on_401_def)
  with tb ne assms(2) show ?thesis
    by (simp add: generate_def except_events_def)
qed

theorem unauthorized_aborts_with_key_message_witness:
  "Http (associations_request crm_unauthorized example_client (PyStr (ascii ''42'')))
        (Inr (error_response 401))
     \<in> set (fst (generate crm_unauthorized example_pypdf (ascii ''key'') None UseCompanyID
                   (ascii ''42''))) \<and>
   status_code (error_response 401) = 401 \<and>
   (\<exists>es. generate crm_unauthorized example_pypdf (ascii ''key'') None UseCompanyID
            (ascii ''42'') =
          (es @ [Error ([0x274C] @ ascii '' Authentication Error''),
                 Error (ascii ''Your HubSpot API key is invalid or has expired.''),
                 Info (ascii ''Please check your API key in the sidebar.'')],
           Failed (HTTPError (error_response 401))))"
proof -
  have h1: "Http (associations_request crm_unauthorized example_client (PyStr (ascii ''42'')))
        (Inr (error_response 401))
     \<in> set (fst (generate crm_unauthorized example_pypdf (ascii ''key'') None UseCompanyID
                   (ascii ''42'')))"
    by (simp add: run_defs client_defs act_defs fill_defs string_defs example_defs)
  have h2: "status_code (error_response 401) = 401"
    by (simp add: error_response_def)
  from unauthorized_aborts_with_key_message[OF h1 h2] h1 h2 show ?thesis
    by blast
qed

section \<open>No match and not found\<close>

text \<open>
  Claim C6: a search by name without a match and a fetch by id answered with 404 are
  surfaced differently. The search ends the attempt through \<open>return\<close> after the message
  that no company was found and the hint to use the company id; the 404 is raised as an
  \<open>HTTPError\<close> and handled by the \<open>except\<close> clause with its not-found messages.
\<close>

theorem no_match_distinct_from_not_found:
  "(company_input \<noteq> [] \<and>
    http w (search_request (HubSpotClient key) company_input) = Inr r \<and>
    \<not> (400 \<le> status_code r \<and> status_code r < 600) \<and>
    json_body r = Some body \<and>
    dict_get body (ascii ''results'') PyNone = Inr found \<and> \<not> truthy found \<longrightarrow>
    generate w lib key uploaded_template SearchByName company_input =
      ([Info ([0x1F50D] @ ascii '' Searching for '' @ [0x27] @ company_input @ [0x27] @
              ascii ''...''),
        Http (search_request (HubSpotClient key) company_input) (Inr r),
        Error ([0x274C] @ ascii '' No company found with name: '' @ company_input),
        Info ([0x1F4A1] @ ascii '' Try using the HubSpot Company ID instead'')],
       Returned)) \<and>
   (company_input \<noteq> [] \<and>
    http w (company_request w (HubSpotClient key) (PyStr company_input)) = Inr r' \<and>
    status_code r' = 404 \<longrightarrow>
    generate w lib key uploaded_template UseCompanyID company_input =
      ([Http (company_request w (HubSpotClient key) (PyStr company_input)) (Inr r'),
        Error ([0x274C] @ ascii '' Not Found''),
        Error (ascii ''Company or contact not found for: '' @ company_input)],
       Failed (HTTPError r')))"
  by (simp add: generate_def try_block_def fetch_company_def search_company_by_name_def
        get_company_by_id_def requests_send_def raise_for_status_def response_json_def
        bind_def emit_def py_def ret_def except_events_def Let_def)

theorem no_match_distinct_from_not_found_witness:
  "generate crm_no_match example_pypdf (ascii ''key'') None SearchByName (ascii ''Acme'') =
     ([Info ([0x1F50D] @ ascii '' Searching for '' @ [0x27] @ ascii ''Acme'' @ [0x27] @
             ascii ''...''),
       Http (search_request (HubSpotClient (ascii ''key'')) (ascii ''Acme''))
            (Inr (ok_response no_match)),
       Error ([0x274C] @ ascii '' No company found with name: '' @ ascii ''Acme''),
       Info ([0x1F4A1] @ ascii '' Try using the HubSpot Company ID instead'')],
      Returned) \<and>
   generate crm_not_found example_pypdf (ascii ''key'') None UseCompanyID (ascii ''42'') =
     ([Http (company_request crm_not_found (HubSpotClient (ascii ''key'')) (PyStr (ascii ''42'')))
            (Inr (error_response 404)),
       Error ([0x274C] @ ascii '' Not Found''),
       Error (ascii ''Company or contact not found for: '' @ ascii ''42'')],
      Failed (HTTPError (error_response 404)))"
proof -
  have a: "ascii ''Acme'' \<noteq> [] \<and>
    http crm_no_match (search_request (HubSpotClient (ascii ''key'')) (ascii ''Acme'')) =
      Inr (ok_response no_match) \<and>
    \<not> (400 \<le> status_code (ok_response no_match) \<and> status_code (ok_response no_match) < 600) \<and>
    json_body (ok_response no_match) = Some no_match \<and>
    dict_get no_match (ascii ''results'') PyNone = Inr (PyList []) \<and> \<not> truthy (PyList [])"
    by (simp add: client_defs example_defs ascii_def)
  have b: "ascii ''42'' \<noteq> [] \<and>
    http crm_not_found
      (company_request crm_not_found (HubSpotClient (ascii ''key'')) (PyStr (ascii ''42''))) =
      Inr (error_response 404) \<and>
    status_code (error_response 404) = 404"
    by (simp add: client_defs example_defs ascii_def)
  note t1 = no_match_distinct_from_not_found
    [where company_input = "ascii ''Acme''" and w = crm_no_match and key = "ascii ''key''"
       and r = "ok_response no_match" and body = no_match and found = "PyList []"
       and lib = example_pypdf and uploaded_template = None
       and r' = "error_response 404"]
  note t2 = no_match_distinct_from_not_found
    [where company_input = "ascii ''42''" and w = crm_not_found and key = "ascii ''key''"
       and r = "ok_response no_match" and body = no_match and found = "PyList []"
       and lib = example_pypdf and uploaded_template = None
       and r' = "error_response 404"]
  from t1 a t2 b show ?thesis
    by blast
qed

section \<open>The file name\<close>

text \<open>
  Claim C7: when a generate attempt ends ready, the file name of its download is
  \<open>BTX_Welcome_Packet_\<close>, the company name with every space replaced by an underscore, an
  underscore, the date of the clock as \<open>YYYYMMDD\<close>, and \<open>.pdf\<close>; for the company
  \<open>Acme Corp\<close> on 2025-03-04 that is \<open>BTX_Welcome_Packet_Acme_Corp_20250304.pdf\<close>.
\<close>

theorem download_filename:
  assumes "generate w lib key up m i = (es, Ready)"
    and "fetch_company w (HubSpotClient key) m i = (es1, Inr (company, cid))"
    and "seq (getitem company (ascii ''properties'')) (\<lambda>p. getitem p (ascii ''name'')) =
           Inr (PyStr name)"
  shows "\<exists>label data mime. last es =
           DownloadButton label data
             (ascii ''BTX_Welcome_Packet_'' @ map (\<lambda>c. if c = 0x20 then 0x5F else c) name @
              ascii ''_'' @ zfill 4 (digits (year (now w 1))) @
              zfill 2 (digits (month_number (month (now w 1)))) @
              zfill 2 (digits (day (now w 1))) @ ascii ''.pdf'') mime"
  using assms unfolding generate_Ready try_block_def Let_def
  by (auto simp: bind_eq_Inr emit_eq py_eq_Inr replace_spaces_def replace_char ascii_space
        ascii_underscore strftime_Ymd_def)

theorem download_filename_witness:
  "generate crm_with_contact example_pypdf (ascii ''key'') None UseCompanyID (ascii ''42'') =
     (fst (generate crm_with_contact example_pypdf (ascii ''key'') None UseCompanyID
             (ascii ''42'')), Ready) \<and>
   fetch_company crm_with_contact (HubSpotClient (ascii ''key'')) UseCompanyID (ascii ''42'') =
     ([Http (company_request crm_with_contact example_client (PyStr (ascii ''42'')))
            (Inr (ok_response acme))],
      Inr (acme, PyStr (ascii ''42''))) \<and>
   seq (getitem acme (ascii ''properties'')) (\<lambda>p. getitem p (ascii ''name'')) =
     Inr (PyStr (ascii ''Acme Corp'')) \<and>
   (\<exists>label data mime.
      last (fst (generate crm_with_contact example_pypdf (ascii ''key'') None UseCompanyID
                   (ascii ''42''))) =
      DownloadButton label data (ascii ''BTX_Welcome_Packet_Acme_Corp_20250304.pdf'') mime)"
proof -
  have h1: "generate crm_with_contact example_pypdf (ascii ''key'') None UseCompanyID
              (ascii ''42'') =
     (fst (generate crm_with_contact example_pypdf (ascii ''key'') None UseCompanyID
             (ascii ''42'')), Ready)"
    by (simp add: run_defs client_defs act_defs fill_defs string_defs example_defs
          digits.simps replace.simps)
  have h2: "fetch_company crm_with_contact (HubSpotClient (ascii ''key'')) UseCompanyID
              (ascii ''42'') =
     ([Http (company_request crm_with_contact example_client (PyStr (ascii ''42'')))
            (Inr (ok_response acme))],
      Inr (acme, PyStr (ascii ''42'')))"
    by (simp add: run_defs client_defs act_defs example_defs ascii_def)
  have h3: "seq (getitem acme (ascii ''properties'')) (\<lambda>p. getitem p (ascii ''name'')) =
     Inr (PyStr (ascii ''Acme Corp''))"
    by (simp add: seq_def acme_def ascii_def)
  have name: "ascii ''BTX_Welcome_Packet_'' @
        map (\<lambda>c. if c = 0x20 then 0x5F else c) (ascii ''Acme Corp'') @
        ascii ''_'' @ zfill 4 (digits (year (now crm_with_contact 1))) @
        zfill 2 (digits (month_number (month (now crm_with_contact 1)))) @
        zfill 2 (digits (day (now crm_with_contact 1))) @ ascii ''.pdf'' =
      ascii ''BTX_Welcome_Packet_Acme_Corp_20250304.pdf''"
    by (simp add: string_defs example_defs digits.simps)
  from download_filename[OF h1 h2 h3] have
    "\<exists>label data mime.
      last (fst (generate crm_with_contact example_pypdf (ascii ''key'') None UseCompanyID
                   (ascii ''42''))) =
      DownloadButton label data (ascii ''BTX_Welcome_Packet_Acme_Corp_20250304.pdf'') mime"
    unfolding name .
  with h1 h2 h3 show ?thesis
    by blast
qed

section \<open>A company without a contact\<close>

lemma name_lookup:
  assumes "seq (getitem company (ascii ''properties'')) (\<lambda>p. getitem p (ascii ''name'')) =
             Inr v"
  shows "\<exists>props. dict_get company (ascii ''properties'') (PyDict []) = Inr props \<and>
           dict_get props (ascii ''name'') (PyStr (ascii ''N/A'')) = Inr v \<and>
           dict_get props (ascii ''btx_customer__'') (PyStr (ascii ''N/A'')) =
             Inr (case company_property company (ascii ''btx_customer__'') of
                    None \<Rightarrow> PyStr (ascii ''N/A'') | Some c \<Rightarrow> c)"
proof -
  from assms obtain kvs where c: "company = PyDict kvs"
    by (cases company) (auto simp: seq_def)
  with assms obtain p where p: "map_of kvs (ascii ''properties'') = Some p"
    and n: "getitem p (ascii ''name'') = Inr v"
    by (auto simp: seq_def split: option.splits)
  from n obtain ps where ps: "p = PyDict ps"
    by (cases p) auto
  with n have "map_of ps (ascii ''name'') = Some v"
    by (auto split: option.splits)
  with c p ps show ?thesis
    by (auto simp: company_property_def split: option.splits)
qed

lemma fill_without_contact:
  assumes "seq (getitem company (ascii ''properties'')) (\<lambda>p. getitem p (ascii ''name'')) =
             Inr v"
    and "\<not> truthy contact"
    and "PdfReader lib t = Inr reader"
    and "clone_document_from_reader lib reader = Inr writer"
    and "num_pages lib writer \<noteq> 0"
    and "update_page_form_field_values lib writer 0
           \<lparr>Text1 = v,
            Text2 = (case company_property company (ascii ''btx_customer__'') of
                       None \<Rightarrow> PyStr (ascii ''N/A'') | Some c \<Rightarrow> c),
            Text3 = ascii ''N/A'', Text4 = strftime_B_d_Y today\<rparr> = Inr writer'"
    and "pdf_write lib writer' = Inr out"
  shows "fill_btx_welcome_packet lib rp today t company contact =
           Inr (out,
                \<lparr>Text1 = v,
                 Text2 = (case company_property company (ascii ''btx_customer__'') of
                            None \<Rightarrow> PyStr (ascii ''N/A'') | Some c \<Rightarrow> c),
                 Text3 = ascii ''N/A'', Text4 = strftime_B_d_Y today\<rparr>)"
proof -
  from name_lookup[OF assms(1)] obtain props
    where "dict_get company (ascii ''properties'') (PyDict []) = Inr props"
      and "dict_get props (ascii ''name'') (PyStr (ascii ''N/A'')) = Inr v"
      and "dict_get props (ascii ''btx_customer__'') (PyStr (ascii ''N/A'')) =
             Inr (case company_property company (ascii ''btx_customer__'') of
                    None \<Rightarrow> PyStr (ascii ''N/A'') | Some c \<Rightarrow> c)"
    by blast
  with assms(2-7) show ?thesis
    by (simp add: fill_btx_welcome_packet_def seq_def pdf_call_def Let_def)
qed

text \<open>
  Claim C8: when the contact lookup for the company that was found yields none, the
  attempt goes on to fill the template, with a warning and no error; wherever the PDF
  library reads the template, finds a page, takes the four values and writes the
  document, the fill returns with \<open>N/A\<close> in its field \<open>Text3\<close> and the attempt ends
  ready, with the download offered.
\<close>

theorem missing_contact_still_ready:
  assumes "company_input \<noteq> []"
    and "fetch_company w (HubSpotClient key) search_method company_input =
           (es1, Inr (company, company_id))"
    and "seq (getitem company (ascii ''properties'')) (\<lambda>p. getitem p (ascii ''name'')) =
           Inr (PyStr name)"
    and "get_company_contacts w (HubSpotClient key) company_id = (es2, Inr contact)"
    and "\<not> truthy contact"
    and "template_to_use w uploaded_template = Inr t"
    and "PdfReader lib t = Inr reader"
    and "clone_document_from_reader lib reader = Inr writer"
    and "num_pages lib writer \<noteq> 0"
    and "update_page_form_field_values lib writer 0
           \<lparr>Text1 = PyStr name,
            Text2 = (case company_property company (ascii ''btx_customer__'') of
                       None \<Rightarrow> PyStr (ascii ''N/A'') | Some c \<Rightarrow> c),
            Text3 = ascii ''N/A'', Text4 = strftime_B_d_Y (now w 0)\<rparr> = Inr writer'"
    and "pdf_write lib writer' = Inr out"
  shows "fill_btx_welcome_packet lib (repr w) (now w 0) t company contact =
           Inr (out,
                \<lparr>Text1 = PyStr name,
                 Text2 = (case company_property company (ascii ''btx_customer__'') of
                            None \<Rightarrow> PyStr (ascii ''N/A'') | Some c \<Rightarrow> c),
                 Text3 = ascii ''N/A'', Text4 = strftime_B_d_Y (now w 0)\<rparr>) \<and>
         generate w lib key uploaded_template search_method company_input =
           (es1 @
            [Success ([0x2705] @ ascii '' Found company: '' @ name),
             Info ([0x1F50D] @ ascii '' Fetching account team information...'')] @
            es2 @
            [Warning ([0x26A0, 0xFE0F] @ ascii '' No contact associated with this company''),
             Info ([0x1F4DD] @ ascii '' Filling PDF form...''),
             Metric (ascii ''Company'') (PyStr name),
             Metric (ascii ''Customer #'')
               (case company_property company (ascii ''btx_customer__'') of
                  None \<Rightarrow> PyStr (ascii ''N/A'') | Some c \<Rightarrow> c),
             Metric (ascii ''Account Team'') (PyStr (ascii ''N/A'')),
             Metric (ascii ''Date'') (PyStr (strftime_B_d_Y (now w 0))),
             DownloadButton ([0x2B07, 0xFE0F] @ ascii '' Download Welcome Packet'') out
               (ascii ''BTX_Welcome_Packet_'' @ replace (ascii '' '') (ascii ''_'') name @
                ascii ''_'' @ strftime_Ymd (now w 1) @ ascii ''.pdf'')
               (ascii ''application/pdf'')],
            Ready)"
proof -
  note f = fill_without_contact[OF assms(3) assms(5) assms(7-11), of "repr w"]
  show ?thesis
    using assms(1-6) f
    by (simp add: generate_def try_block_def show_contact_def replace_spaces_def
          bind_def emit_def py_def Let_def)
qed

theorem missing_contact_still_ready_witness:
  "ascii ''42'' \<noteq> [] \<and>
   fetch_company crm_without_contact (HubSpotClient (ascii ''key'')) UseCompanyID
     (ascii ''42'') =
     ([Http (company_request crm_without_contact example_client (PyStr (ascii ''42'')))
            (Inr (ok_response acme))],
      Inr (acme, PyStr (ascii ''42''))) \<and>
   seq (getitem acme (ascii ''properties'')) (\<lambda>p. getitem p (ascii ''name'')) =
     Inr (PyStr (ascii ''Acme Corp'')) \<and>
   get_company_contacts crm_without_contact (HubSpotClient (ascii ''key''))
     (PyStr (ascii ''42'')) =
     ([Http (associations_request crm_without_contact example_client (PyStr (ascii ''42'')))
            (Inr (ok_response no_association))],
      Inr PyNone) \<and>
   \<not> truthy PyNone \<and>
   template_to_use crm_without_contact None = Inr ''%PDF-1.7'' \<and>
   PdfReader example_pypdf ''%PDF-1.7'' = Inr ''%PDF-1.7'' \<and>
   clone_document_from_reader example_pypdf ''%PDF-1.7'' = Inr ''%PDF-1.7'' \<and>
   num_pages example_pypdf ''%PDF-1.7'' \<noteq> 0 \<and>
   update_page_form_field_values example_pypdf ''%PDF-1.7'' 0
     \<lparr>Text1 = PyStr (ascii ''Acme Corp''),
      Text2 = (case company_property acme (ascii ''btx_customer__'') of
                 None \<Rightarrow> PyStr (ascii ''N/A'') | Some c \<Rightarrow> c),
      Text3 = ascii ''N/A'', Text4 = strftime_B_d_Y (now crm_without_contact 0)\<rparr> =
     Inr ''%PDF-1.7'' \<and>
   pdf_write example_pypdf ''%PDF-1.7'' = Inr ''%PDF-1.7'' \<and>
   fill_btx_welcome_packet example_pypdf (repr crm_without_contact)
     (now crm_without_contact 0) ''%PDF-1.7'' acme PyNone =
     Inr (''%PDF-1.7'',
          \<lparr>Text1 = PyStr (ascii ''Acme Corp''), Text2 = PyStr (ascii ''CUST-9''),
           Text3 = ascii ''N/A'', Text4 = ascii ''March 04, 2025''\<rparr>) \<and>
   snd (generate crm_without_contact example_pypdf (ascii ''key'') None UseCompanyID
          (ascii ''42'')) = Ready \<and>
   Warning ([0x26A0, 0xFE0F] @ ascii '' No contact associated with this company'')
     \<in> set (fst (generate crm_without_contact example_pypdf (ascii ''key'') None
                   UseCompanyID (ascii ''42'')))"
proof -
  have h1: "ascii ''42'' \<noteq> []"
    by (simp add: ascii_def)
  have h2: "fetch_company crm_without_contact (HubSpotClient (ascii ''key'')) UseCompanyID
     (ascii ''42'') =
     ([Http (company_request crm_without_contact example_client (PyStr (ascii ''42'')))
            (Inr (ok_response acme))],
      Inr (acme, PyStr (ascii ''42'')))"
    by (simp add: run_defs client_defs act_defs example_defs ascii_def)
  have h3: "seq (getitem acme (ascii ''properties'')) (\<lambda>p. getitem p (ascii ''name'')) =
     Inr (PyStr (ascii ''Acme Corp''))"
    by (simp add: seq_def acme_def ascii_def)
  have h4: "get_company_contacts crm_without_contact (HubSpotClient (ascii ''key''))
     (PyStr (ascii ''42'')) =
     ([Http (associations_request crm_without_contact example_client (PyStr (ascii ''42'')))
            (Inr (ok_response no_association))],
      Inr PyNone)"
    by (simp add: client_defs act_defs example_defs ascii_def)
  have h5: "\<not> truthy PyNone"
    by simp
  have h6: "template_to_use crm_without_contact None = Inr ''%PDF-1.7''"
    by (simp add: template_to_use_def example_defs)
  have h7: "PdfReader example_pypdf ''%PDF-1.7'' = Inr ''%PDF-1.7''"
    by (simp add: example_pypdf_def)
  have h8: "clone_document_from_reader example_pypdf ''%PDF-1.7'' = Inr ''%PDF-1.7''"
    by (simp add: example_pypdf_def)
  have h9: "num_pages example_pypdf ''%PDF-1.7'' \<noteq> 0"
    by (simp add: example_pypdf_def)
  have h10: "update_page_form_field_values example_pypdf ''%PDF-1.7'' 0
     \<lparr>Text1 = PyStr (ascii ''Acme Corp''),
      Text2 = (case company_property acme (ascii ''btx_customer__'') of
                 None \<Rightarrow> PyStr (ascii ''N/A'') | Some c \<Rightarrow> c),
      Text3 = ascii ''N/A'', Text4 = strftime_B_d_Y (now crm_without_contact 0)\<rparr> =
     Inr ''%PDF-1.7''"
    by (simp add: example_pypdf_def)
  have h11: "pdf_write example_pypdf ''%PDF-1.7'' = Inr ''%PDF-1.7''"
    by (simp add: example_pypdf_def)
  have v: "(case company_property acme (ascii ''btx_customer__'') of
              None \<Rightarrow> PyStr (ascii ''N/A'') | Some c \<Rightarrow> c) = PyStr (ascii ''CUST-9'')"
    by (simp add: company_property_def acme_def ascii_def)
  have d: "strftime_B_d_Y (now crm_without_contact 0) = ascii ''March 04, 2025''"
    by (simp add: string_defs example_defs digits.simps)
  from missing_contact_still_ready[OF h1 h2 h3 h4 h5 h6 h7 h8 h9 h10 h11]
  have "fill_btx_welcome_packet example_pypdf (repr crm_without_contact)
     (now crm_without_contact 0) ''%PDF-1.7'' acme PyNone =
     Inr (''%PDF-1.7'',
          \<lparr>Text1 = PyStr (ascii ''Acme Corp''), Text2 = PyStr (ascii ''CUST-9''),
           Text3 = ascii ''N/A'', Text4 = ascii ''March 04, 2025''\<rparr>) \<and>
   snd (generate crm_without_contact example_pypdf (ascii ''key'') None UseCompanyID
          (ascii ''42'')) = Ready \<and>
   Warning ([0x26A0, 0xFE0F] @ ascii '' No contact associated with this company'')
     \<in> set (fst (generate crm_without_contact example_pypdf (ascii ''key'') None
                   UseCompanyID (ascii ''42'')))"
    unfolding v d by simp
  with h1 h2 h3 h4 h5 h6 h7 h8 h9 h10 h11 show ?thesis
    by blast
qed

section \<open>A template that cannot be filled\<close>

text \<open>
  Claim C3, as the code has it: when the PDF library cannot read the template, or the
  document has no first page, the fill raises the exception of the library, an
  \<open>IndexError\<close> or an \<open>AttributeError\<close> (there is no \<open>TemplateError\<close>), and the
  attempt ends as failed with the messages of the general \<open>except\<close> clause:
  \<open>Unexpected Error\<close>, the text of the exception, and the advice to check the inputs.
\<close>

theorem template_failure_is_unexpected_error:
  assumes "company_input \<noteq> []"
    and "fetch_company w (HubSpotClient key) search_method company_input =
           (es1, Inr (company, company_id))"
    and "seq (getitem company (ascii ''properties'')) (\<lambda>p. getitem p (ascii ''name'')) =
           Inr name"
    and "get_company_contacts w (HubSpotClient key) company_id = (es2, Inr contact)"
    and "show_contact w contact = (es3, Inr u)"
    and "template_to_use w uploaded_template = Inr t"
    and "(\<exists>m. PdfReader lib t = Inl m) \<or>
         (\<exists>d d'. PdfReader lib t = Inr d \<and> clone_document_from_reader lib d = Inr d' \<and>
                  num_pages lib d' = 0)"
  shows "\<exists>e. fill_btx_welcome_packet lib (repr w) (now w 0) t company contact = Inl e \<and>
             (e = AttributeError \<or> e = IndexError \<or> (\<exists>m. e = PdfError m)) \<and>
             generate w lib key uploaded_template search_method company_input =
               (es1 @
                [Success ([0x2705] @ ascii '' Found company: '' @ py_format (repr w) name),
                 Info ([0x1F50D] @ ascii '' Fetching account team information...'')] @
                es2 @ es3 @
                [Info ([0x1F4DD] @ ascii '' Filling PDF form...''),
                 Error ([0x274C] @ ascii '' Unexpected Error''),
                 ErrorExc [] e,
                 Info (ascii ''Please check your inputs and try again.'')],
                Failed e)"
proof -
  from fill_defect[OF assms(7)] obtain e
    where e: "fill_btx_welcome_packet lib (repr w) (now w 0) t company contact = Inl e"
    by blast
  from fill_exc[OF e]
  have k: "e = AttributeError \<or> e = IndexError \<or> (\<exists>m. e = PdfError m)" .
  have "generate w lib key uploaded_template search_method company_input =
               (es1 @
                [Success ([0x2705] @ ascii '' Found company: '' @ py_format (repr w) name),
                 Info ([0x1F50D] @ ascii '' Fetching account team information...'')] @
                es2 @ es3 @
                [Info ([0x1F4DD] @ ascii '' Filling PDF form...''),
                 Error ([0x274C] @ ascii '' Unexpected Error''),
                 ErrorExc [] e,
                 Info (ascii ''Please check your inputs and try again.'')],
                Failed e)"
    using assms(1-6) e k
    by (auto simp: generate_def try_block_def except_events_def bind_def emit_def py_def
          Let_def)
  with e k show ?thesis
    by blast
qed

theorem template_failure_is_unexpected_error_witness:
  "ascii ''42'' \<noteq> [] \<and>
   fetch_company crm_without_contact (HubSpotClient (ascii ''key'')) UseCompanyID
     (ascii ''42'') =
     ([Http (company_request crm_without_contact example_client (PyStr (ascii ''42'')))
            (Inr (ok_response acme))],
      Inr (acme, PyStr (ascii ''42''))) \<and>
   seq (getitem acme (ascii ''properties'')) (\<lambda>p. getitem p (ascii ''name'')) =
     Inr (PyStr (ascii ''Acme Corp'')) \<and>
   get_company_contacts crm_without_contact (HubSpotClient (ascii ''key''))
     (PyStr (ascii ''42'')) =
     ([Http (associations_request crm_without_contact example_client (PyStr (ascii ''42'')))
            (Inr (ok_response no_association))],
      Inr PyNone) \<and>
   show_contact crm_without_contact PyNone =
     ([Warning ([0x26A0, 0xFE0F] @ ascii '' No contact associated with this company'')],
      Inr ()) \<and>
   template_to_use crm_without_contact (Some ''not a pdf'') = Inr ''not a pdf'' \<and>
   PdfReader example_pypdf ''not a pdf'' = Inl (ascii ''EOF marker not found'') \<and>
   (\<exists>e. fill_btx_welcome_packet example_pypdf (repr crm_without_contact)
           (now crm_without_contact 0) ''not a pdf'' acme PyNone = Inl e \<and>
        snd (generate crm_without_contact example_pypdf (ascii ''key'') (Some ''not a pdf'')
               UseCompanyID (ascii ''42'')) = Failed e \<and>
        Error ([0x274C] @ ascii '' Unexpected Error'')
          \<in> set (fst (generate crm_without_contact example_pypdf (ascii ''key'')
                        (Some ''not a pdf'') UseCompanyID (ascii ''42''))))"
proof -
  have h1: "ascii ''42'' \<noteq> []"
    by (simp add: ascii_def)
  have h2: "fetch_company crm_without_contact (HubSpotClient (ascii ''key'')) UseCompanyID
     (ascii ''42'') =
     ([Http (company_request crm_without_contact example_client (PyStr (ascii ''42'')))
            (Inr (ok_response acme))],
      Inr (acme, PyStr (ascii ''42'')))"
    by (simp add: run_defs client_defs act_defs example_defs ascii_def)
  have h3: "seq (getitem acme (ascii ''properties'')) (\<lambda>p. getitem p (ascii ''name'')) =
     Inr (PyStr (ascii ''Acme Corp''))"
    by (simp add: seq_def acme_def ascii_def)
  have h4: "get_company_contacts crm_without_contact (HubSpotClient (ascii ''key''))
     (PyStr (ascii ''42'')) =
     ([Http (associations_request crm_without_contact example_client (PyStr (ascii ''42'')))
            (Inr (ok_response no_association))],
      Inr PyNone)"
    by (simp add: client_defs act_defs example_defs ascii_def)
  have h5: "show_contact crm_without_contact PyNone =
     ([Warning ([0x26A0, 0xFE0F] @ ascii '' No contact associated with this company'')],
      Inr ())"
    by (simp add: show_contact_def emit_def)
  have h6: "template_to_use crm_without_contact (Some ''not a pdf'') = Inr ''not a pdf''"
    by (simp add: template_to_use_def)
  have h7: "PdfReader example_pypdf ''not a pdf'' = Inl (ascii ''EOF marker not found'')"
    by (simp add: example_pypdf_def)
  from h7 have h8: "(\<exists>m. PdfReader example_pypdf ''not a pdf'' = Inl m) \<or>
         (\<exists>d d'. PdfReader example_pypdf ''not a pdf'' = Inr d \<and>
                  clone_document_from_reader example_pypdf d = Inr d' \<and>
                  num_pages example_pypdf d' = 0)"
    by blast
  from template_failure_is_unexpected_error[OF h1 h2 h3 h4 h5 h6 h8]
  have "\<exists>e. fill_btx_welcome_packet example_pypdf (repr crm_without_contact)
           (now crm_without_contact 0) ''not a pdf'' acme PyNone = Inl e \<and>
        snd (generate crm_without_contact example_pypdf (ascii ''key'') (Some ''not a pdf'')
               UseCompanyID (ascii ''42'')) = Failed e \<and>
        Error ([0x274C] @ ascii '' Unexpected Error'')
          \<in> set (fst (generate crm_without_contact example_pypdf (ascii ''key'')
                        (Some ''not a pdf'') UseCompanyID (ascii ''42'')))"
    by auto
  with h1 h2 h3 h4 h5 h6 h7 show ?thesis
    by blast
qed

text \<open>
  The claim as the spec has it fails: an uploaded file that the library cannot read ends
  the attempt with the general messages, none of them about the template.
\<close>

theorem template_error_counterexample:
  "generate crm_without_contact example_pypdf (ascii ''key'') (Some ''not a pdf'')
     UseCompanyID (ascii ''42'') =
     ([Http (company_request crm_without_contact example_client (PyStr (ascii ''42'')))
            (Inr (ok_response acme)),
       Success ([0x2705] @ ascii '' Found company: Acme Corp''),
       Info ([0x1F50D] @ ascii '' Fetching account team information...''),
       Http (associations_request crm_without_contact example_client (PyStr (ascii ''42'')))
            (Inr (ok_response no_association)),
       Warning ([0x26A0, 0xFE0F] @ ascii '' No contact associated with this company''),
       Info ([0x1F4DD] @ ascii '' Filling PDF form...''),
       Error ([0x274C] @ ascii '' Unexpected Error''),
       ErrorExc [] (PdfError (ascii ''EOF marker not found'')),
       Info (ascii ''Please check your inputs and try again.'')],
      Failed (PdfError (ascii ''EOF marker not found'')))"
  by (simp add: run_defs client_defs act_defs fill_defs string_defs example_defs)

section \<open>The properties that are requested\<close>

lemma sent_send:
  "sent (fst (bind (requests_send w q) (\<lambda>response.
      bind (py (raise_for_status response)) (\<lambda>_. py (k response))))) = [q]"
  by (cases "http w q")
     (auto simp: requests_send_def bind_def py_def split: sum.splits prod.splits)

lemma sent_search:
  "sent (fst (search_company_by_name w c n)) = [search_request c n]"
  by (cases "http w (search_request c n)")
     (auto simp: search_company_by_name_def requests_send_def bind_def py_def ret_def
           split: sum.splits prod.splits)

text \<open>
  Claim C9, as the code has it: for every id, the fetch of a company sends one request,
  a GET of \<open>/crm/v3/objects/companies/{id}\<close> with the query \<open>properties\<close> set to
  \<open>name,btx_customer__\<close>, the name and the customer-number property of the CRM, and
  nothing else; the search by name sends one POST whose payload asks for the properties
  \<open>name\<close> and \<open>btx_customer__\<close> only.
\<close>

theorem company_requests_two_properties:
  "sent (fst (get_company_by_id w (HubSpotClient key) (PyStr company_id))) =
     [\<lparr>rq_method = GET,
       rq_url = ascii ''https://api.hubapi.com/crm/v3/objects/companies/'' @ company_id,
       rq_headers = [(ascii ''Authorization'', ascii ''Bearer '' @ key),
                     (ascii ''Content-Type'', ascii ''application/json'')],
       rq_params = [(ascii ''properties'', ascii ''name,btx_customer__'')],
       rq_json = None\<rparr>] \<and>
   sent (fst (search_company_by_name w (HubSpotClient key) company_name)) =
     [\<lparr>rq_method = POST,
       rq_url = ascii ''https://api.hubapi.com/crm/v3/objects/companies/search'',
       rq_headers = [(ascii ''Authorization'', ascii ''Bearer '' @ key),
                     (ascii ''Content-Type'', ascii ''application/json'')],
       rq_params = [],
       rq_json = Some (search_payload company_name)\<rparr>] \<and>
   getitem (search_payload company_name) (ascii ''properties'') =
     Inr (PyList [PyStr (ascii ''name''), PyStr (ascii ''btx_customer__'')])"
  unfolding get_company_by_id_def sent_send sent_search
  by (simp add: company_request_def search_request_def HubSpotClient_def
        search_payload_def ascii_def)

text \<open>
  The claim as the spec has it fails: the query of the company fetch is not
  \<open>properties=name,customer-number\<close>.
\<close>

theorem customer_number_query_counterexample:
  "map rq_params (sent (fst (get_company_by_id crm_with_contact example_client
                               (PyStr (ascii ''42''))))) =
     [[(ascii ''properties'', ascii ''name,btx_customer__'')]] \<and>
   ascii ''name,btx_customer__'' \<noteq> ascii ''name,customer-number''"
  by (simp add: get_company_by_id_def sent_send company_request_def ascii_def)

section \<open>Reading the filled packet back\<close>

lemma pdf_call_Inr: "pdf_call r = Inr x \<longleftrightarrow> r = Inr x"
  by (cases r) (simp_all add: pdf_call_def)

lemma fill_hands_values_to_library:
  assumes "fill_btx_welcome_packet lib rp today t company contact = Inr (out, fv)"
  shows "\<exists>reader writer writer'.
           PdfReader lib t = Inr reader \<and>
           clone_document_from_reader lib reader = Inr writer \<and>
           num_pages lib writer \<noteq> 0 \<and>
           update_page_form_field_values lib writer 0 fv = Inr writer' \<and>
           pdf_write lib writer' = Inr out"
  using assms unfolding fill_btx_welcome_packet_def Let_def seq_Inr pdf_call_Inr
  by (auto split: if_splits)

lemma map_of_write_form:
  "map_of (write_form items entries) k =
     (case map_of entries k of
        None \<Rightarrow> None
      | Some v \<Rightarrow> Some (case map_of items k of None \<Rightarrow> v | Some v' \<Rightarrow> v'))"
  by (induction entries) (auto split: option.splits)

lemma names_write_form: "map fst (write_form items entries) = map fst entries"
  by (induction entries) auto

lemma others_write_form:
  "filter (\<lambda>kv. fst kv \<notin> fst ` set items) (write_form items entries) =
   filter (\<lambda>kv. fst kv \<notin> fst ` set items) entries"
proof (induction entries)
  case Nil
  then show ?case by simp
next
  case (Cons kv entries)
  obtain k v where kv: "kv = (k, v)"
    by (cases kv)
  have "k \<notin> fst ` set items \<Longrightarrow> map_of items k = None"
    by (simp add: map_of_eq_None_iff)
  with Cons kv show ?case
    by simp
qed

lemma set_field_items: "fst ` set (field_items fv) = set target_names"
  by (simp add: field_items_def target_names_def)

lemma ascii_eq: "ascii s = ascii t \<longleftrightarrow> s = t"
  by (simp add: ascii_def inj_on_def)

text \<open>
  Claim C2: for every template whose first page carries the four form fields, and every
  company and contact, reading the bytes of a fill that returned gives the template
  with its first page's form changed only: the four fields hold the values of
  \<open>field_values\<close> returned with the bytes, and every other field of the page, its other
  content, the other pages and the rest of the document are those of the template. The
  PDF library is taken by its contract.
\<close>

theorem filled_fields_round_trip:
  assumes "pdf_contract lib"
    and "PdfReader lib template_file = Inr template"
    and "pages template = p # ps"
    and "set target_names \<subseteq> fst ` set (form p)"
    and "fill_btx_welcome_packet lib rp today template_file company contact = Inr (out, fv)"
  shows "\<exists>f. PdfReader lib out = Inr (template\<lparr>pages := p\<lparr>form := f\<rparr> # ps\<rparr>) \<and>
             map_of f (ascii ''Text1'') = Some (Text1 fv) \<and>
             map_of f (ascii ''Text2'') = Some (Text2 fv) \<and>
             map_of f (ascii ''Text3'') = Some (PyStr (Text3 fv)) \<and>
             map_of f (ascii ''Text4'') = Some (PyStr (Text4 fv)) \<and>
             map fst f = map fst (form p) \<and>
             filter (\<lambda>kv. fst kv \<notin> set target_names) f =
             filter (\<lambda>kv. fst kv \<notin> set target_names) (form p)"
proof -
  let ?f = "write_form (field_items fv) (form p)"
  from fill_hands_values_to_library[OF assms(5)] obtain reader writer writer'
    where r: "PdfReader lib template_file = Inr reader"
      and c: "clone_document_from_reader lib reader = Inr writer"
      and u: "update_page_form_field_values lib writer 0 fv = Inr writer'"
      and w: "pdf_write lib writer' = Inr out"
    by blast
  from r assms(2) have "reader = template" by simp
  with c assms(1) have "writer = template" by (simp add: pdf_contract_def)
  with u assms(1) have "writer' = set_fields template 0 fv" by (simp add: pdf_contract_def)
  with assms(3) have w': "writer' = template\<lparr>pages := p\<lparr>form := ?f\<rparr> # ps\<rparr>"
    by (simp add: set_fields_def)
  from w assms(1) have "PdfReader lib out = Inr writer'" by (simp add: pdf_contract_def)
  with w' have 1: "PdfReader lib out = Inr (template\<lparr>pages := p\<lparr>form := ?f\<rparr> # ps\<rparr>)"
    by simp
  have present: "\<And>k. k \<in> set target_names \<Longrightarrow> \<exists>v. map_of (form p) k = Some v"
    using assms(4) by (metis map_of_eq_None_iff not_None_eq subsetD)
  have 2: "map_of ?f (ascii ''Text1'') = Some (Text1 fv)"
    using present[of "ascii ''Text1''"]
    by (auto simp: map_of_write_form target_names_def field_items_def)
  have 3: "map_of ?f (ascii ''Text2'') = Some (Text2 fv)"
    using present[of "ascii ''Text2''"]
    by (auto simp: map_of_write_form target_names_def field_items_def ascii_eq)
  have 4: "map_of ?f (ascii ''Text3'') = Some (PyStr (Text3 fv))"
    using present[of "ascii ''Text3''"]
    by (auto simp: map_of_write_form target_names_def field_items_def ascii_eq)
  have 5: "map_of ?f (ascii ''Text4'') = Some (PyStr (Text4 fv))"
    using present[of "ascii ''Text4''"]
    by (auto simp: map_of_write_form target_names_def field_items_def ascii_eq)
  have 6: "map fst ?f = map fst (form p)"
    by (rule names_write_form)
  have 7: "filter (\<lambda>kv. fst kv \<notin> set target_names) ?f =
           filter (\<lambda>kv. fst kv \<notin> set target_names) (form p)"
    using others_write_form[of "field_items fv" "form p"] by (simp add: set_field_items)
  from 1 2 3 4 5 6 7 show ?thesis by blast
qed

theorem filled_fields_round_trip_witness:
  "pdf_contract model_pypdf \<and>
   PdfReader model_pypdf ''%PDF-template'' = Inr template_document \<and>
   pages template_document = cover_page # [terms_page] \<and>
   set target_names \<subseteq> fst ` set (form cover_page) \<and>
   fill_btx_welcome_packet model_pypdf (\<lambda>v. []) march_4 ''%PDF-template'' acme jane =
     Inr (''%PDF-filled'', jane_at_acme) \<and>
   (\<exists>f. PdfReader model_pypdf ''%PDF-filled'' =
          Inr (template_document\<lparr>pages := cover_page\<lparr>form := f\<rparr> # [terms_page]\<rparr>) \<and>
        map_of f (ascii ''Text1'') = Some (PyStr (ascii ''Acme Corp'')) \<and>
        map_of f (ascii ''Text3'') = Some (PyStr (ascii ''Jane Doe'')) \<and>
        filter (\<lambda>kv. fst kv \<notin> set target_names) f =
          [(ascii ''Notes'', PyStr (ascii ''keep''))])"
proof -
  have h1: "pdf_contract model_pypdf"
    by (auto simp: pdf_contract_def model_pypdf_def)
  have h2: "PdfReader model_pypdf ''%PDF-template'' = Inr template_document"
    by (simp add: model_pypdf_def)
  have h3: "pages template_document = cover_page # [terms_page]"
    by (simp add: template_document_def)
  have h4: "set target_names \<subseteq> fst ` set (form cover_page)"
    by (simp add: target_names_def cover_page_def)
  have fv: "\<lparr>Text1 = PyStr (ascii ''Acme Corp''), Text2 = PyStr (ascii ''CUST-9''),
      Text3 = ascii ''Jane Doe'', Text4 = ascii ''March 04, 2025''\<rparr> = jane_at_acme"
    by (simp add: jane_at_acme_def)
  have h5: "fill_btx_welcome_packet model_pypdf (\<lambda>v. []) march_4 ''%PDF-template'' acme jane =
     Inr (''%PDF-filled'', jane_at_acme)"
    by (simp add: fill_defs string_defs acme_def jane_def march_4_def digits.simps
          model_pypdf_def filled_document_def jane_at_acme_def template_document_def)
  from filled_fields_round_trip[OF h1 h2 h3 h4 h5]
  have "\<exists>f. PdfReader model_pypdf ''%PDF-filled'' =
          Inr (template_document\<lparr>pages := cover_page\<lparr>form := f\<rparr> # [terms_page]\<rparr>) \<and>
        map_of f (ascii ''Text1'') = Some (PyStr (ascii ''Acme Corp'')) \<and>
        map_of f (ascii ''Text3'') = Some (PyStr (ascii ''Jane Doe'')) \<and>
        filter (\<lambda>kv. fst kv \<notin> set target_names) f =
          [(ascii ''Notes'', PyStr (ascii ''keep''))]"
    by (auto simp: jane_at_acme_def cover_page_def target_names_def ascii_eq)
  with h1 h2 h3 h4 h5 show ?thesis
    by blast
qed

end
